theory Spec2Isabelle
  imports Complex_Main
begin

section \<open>Data model (lib/types/registration.ts)\<close>

text \<open>
  Quantities (the form enters them with \<open>parseInt\<close>) and timestamps
  (milliseconds) are modelled as unbounded integers.  Prices and amounts are JavaScript
  numbers (\<open>jsNumber\<close>): a finite value, an infinity or not-a-number, the two
  zeros being one value.  The code adds and multiplies them in double-precision
  arithmetic, which rounds: every sum and product the code forms of them goes through
  the addition and multiplication of the runtime (\<open>JsRuntime\<close> below), about
  which nothing is assumed.  Strings are \<open>string\<close>.  Optional fields are \<open>option\<close> values.  The participant sub-records of a
  registration and the description and sales-window fields of a ticket type are copied
  by the code without ever being read in a decision; they are left out of the records.
  \<open>RegistrationData\<close> is the type
  \<^verbatim>\<open>Omit<Registration, 'id' | 'createdAt' | 'updatedAt'>\<close> that the submission
  builds; \<open>Registration\<close> extends it with what the store adds.
\<close>

datatype jsNumber = Finite real | PlusInfinity | MinusInfinity | NaN

record TicketType =
  tt_id :: string
  tt_name :: string
  price :: jsNumber
  maxQuantity :: int
  availableQuantity :: int
  isActive :: bool

record TicketSelection =
  ticketTypeId :: string
  quantity :: int
  sel_price :: jsNumber

datatype status = Pending | Confirmed | Cancelled | Waitlisted

datatype paymentStatus = PayPending | PayCompleted | PayFailed | PayRefunded

record RegistrationData =
  eventId :: string
  formConfigId :: string
  ticketSelections :: "TicketSelection list"
  totalAmount :: jsNumber
  status :: status
  paymentStatus :: paymentStatus
  registrationDate :: int
  confirmationCode :: string

record Registration = RegistrationData +
  approvedAt :: "int option"
  createdAt :: int
  updatedAt :: int

record RegistrationFormConfig =
  fc_id :: string
  fc_eventId :: string
  requiresApproval :: bool
  fc_isActive :: bool

record RegistrationFormData =
  fd_ticketSelections :: "TicketSelection list"
  agreeToTerms :: bool

text \<open>
  The two counter objects of a summary start as \<open>{}\<close> and are filled with
  \<open>+=\<close> and \<open>++\<close>.  What such an object holds under a key is a number or,
  where the key names a property the object inherits, a string or not-a-number (see
  \<open>addSold\<close> and \<open>addDate\<close>).
\<close>

datatype soldEntry = SoldCount int | SoldText string



section \<open>The document store (Firestore collections)\<close>

text \<open>
  A collection is a list of (document id, document data) pairs in insertion order.
  \<open>getDoc\<close> reads a document by id, \<open>updateDoc\<close> rewrites the fields of the
  document with that id and leaves every other document alone.  The store is taken to
  be reachable: the only input/output failure modelled is a rejected \<open>addDoc\<close>.
\<close>

record Store =
  registrations :: "(string \<times> Registration) list"
  ticketTypes :: "(string \<times> TicketType) list"

definition getDoc :: "(string \<times> 'a) list \<Rightarrow> string \<Rightarrow> 'a option" where
  "getDoc coll docId = map_of coll docId"

definition updateDoc :: "(string \<times> 'a) list \<Rightarrow> string \<Rightarrow> ('a \<Rightarrow> 'a) \<Rightarrow> (string \<times> 'a) list" where
  "updateDoc coll docId f = map (\<lambda>(k, v). if k = docId then (k, f v) else (k, v)) coll"

datatype error =
    FormConfigNotFound
  | TicketTypeNotFound string
  | InsufficientTickets string
  | FailedToCreateRegistration
  | InsufficientAvailability
  | TicketDocNotFound
  | FailedToUpdateStatus

text \<open>
  What a submission takes from its environment: the document id \<open>addDoc\<close> assigns,
  whether \<open>addDoc\<close> rejects, the code \<open>generateConfirmationCode\<close> returns, and the
  clock at the two places it is read.
\<close>

record SubmitEnv =
  newDocId :: string
  addDocFails :: bool
  generatedCode :: string
  submitTime :: int
  createTime :: int

text \<open>
  What the code takes from the JavaScript runtime: the addition and the multiplication
  of two numbers (rounded as the runtime rounds them), the properties every plain object
  inherits from \<open>Object.prototype\<close>, each with the string the runtime converts its
  value to (\<open>None\<close> for a key that is not inherited), and the conversion of a
  number to a string.
\<close>

record JsRuntime =
  jsAdd :: "jsNumber \<Rightarrow> jsNumber \<Rightarrow> jsNumber"
  jsMul :: "jsNumber \<Rightarrow> jsNumber \<Rightarrow> jsNumber"
  inheritedText :: "string \<Rightarrow> string option"
  numberToString :: "int \<Rightarrow> string"

section \<open>registrationService (lib/services/registrationService.ts)\<close>

definition createRegistration :: "SubmitEnv \<Rightarrow> Store \<Rightarrow> RegistrationData \<Rightarrow> error + (string \<times> Store)" where
  "createRegistration env s registrationData =
     (if addDocFails env then Inl FailedToCreateRegistration
      else Inr (newDocId env,
             s\<lparr>registrations := registrations s @
                 [(newDocId env,
                   RegistrationData.extend registrationData
                     (Registration.fields None (createTime env) (createTime env)))]\<rparr>))"

text \<open>
  \<open>updateRegistrationStatus\<close> builds the update \<open>{status, updatedAt}\<close>, adds
  \<open>paymentStatus\<close> when one is passed and \<open>approvedAt\<close> when the new status is
  \<open>confirmed\<close>, and hands it to \<open>updateDoc\<close>, which rejects when the document does
  not exist.  The current status of the registration is never read.
\<close>

definition updateRegistrationStatus ::
    "int \<Rightarrow> Store \<Rightarrow> string \<Rightarrow> status \<Rightarrow> paymentStatus option \<Rightarrow> error + Store" where
  "updateRegistrationStatus now s rid st ps =
     (case getDoc (registrations s) rid of
        None \<Rightarrow> Inl FailedToUpdateStatus
      | Some _ \<Rightarrow>
          Inr (s\<lparr>registrations := updateDoc (registrations s) rid
                 (\<lambda>r. let r1 = r\<lparr>status := st, updatedAt := now\<rparr>;
                          r2 = (case ps of Some p \<Rightarrow> r1\<lparr>paymentStatus := p\<rparr> | None \<Rightarrow> r1)
                      in if st = Confirmed then r2\<lparr>approvedAt := Some now\<rparr> else r2)\<rparr>))"


text \<open>
  The two \<open>forEach\<close> loops of \<open>getRegistrationSummary\<close>.  The counters live
  in plain objects, so \<open>summary.ticketsSold[id]\<close> reads the object's own entry or,
  when there is none, the property inherited under that name.  A counter that is missing
  or falsy (\<open>0\<close>, the empty string, not-a-number) is set to zero before the quantity
  is added.  An inherited value is truthy and is not reset: \<open>+=\<close> then appends the
  quantity to its string and stores the string as an own entry, except under
  \<open>__proto__\<close>, where the assignment of a primitive stores nothing.
\<close>

definition addSold ::
    "JsRuntime \<Rightarrow> (string \<rightharpoonup> soldEntry) \<Rightarrow> TicketSelection \<Rightarrow> (string \<rightharpoonup> soldEntry)" where
  "addSold rt sold selection =
     (let k = ticketTypeId selection; q = quantity selection in
      case sold k of
        Some (SoldCount v) \<Rightarrow> sold(k \<mapsto> SoldCount ((if v = 0 then 0 else v) + q))
      | Some (SoldText x) \<Rightarrow>
          if x = [] then sold(k \<mapsto> SoldCount (0 + q))
          else sold(k \<mapsto> SoldText (x @ numberToString rt q))
      | None \<Rightarrow>
          (case inheritedText rt k of
             None \<Rightarrow> sold(k \<mapsto> SoldCount (0 + q))
           | Some x \<Rightarrow>
               if k = ''__proto__'' then sold
               else sold(k \<mapsto> SoldText (x @ numberToString rt q))))"




section \<open>ticketTypeService.updateTicketAvailability\<close>

text \<open>
  The function reads the ticket-type document, adds \<open>quantityChange\<close> to its
  \<open>availableQuantity\<close>, throws when the sum is negative and otherwise writes the sum
  back.  A missing document throws \<open>Ticket type not found\<close>.
\<close>

definition updateTicketAvailability :: "Store \<Rightarrow> string \<Rightarrow> int \<Rightarrow> error + Store" where
  "updateTicketAvailability s tid quantityChange =
     (case getDoc (ticketTypes s) tid of
        Some currentData \<Rightarrow>
          (let newAvailableQuantity = availableQuantity currentData + quantityChange in
           if newAvailableQuantity < 0 then Inl InsufficientAvailability
           else Inr (s\<lparr>ticketTypes :=
                  updateDoc (ticketTypes s) tid (\<lambda>d. d\<lparr>availableQuantity := newAvailableQuantity\<rparr>)\<rparr>))
      | None \<Rightarrow> Inl TicketDocNotFound)"

text \<open>
  The same function one store operation at a time.  Between \<open>await getDoc\<close> and
  \<open>await updateDoc\<close> the caller holds the snapshot it read and the value it is about
  to write; other callers' store operations can be served in between.  A schedule names,
  operation by operation, the call whose next store operation the store serves.
  Documents are never deleted here, so the document a call has read is still there when
  the call writes.
\<close>

datatype callState =
    NotStarted string int
  | AwaitingWrite string int
  | Resolved
  | Rejected error

fun stepCall :: "Store \<Rightarrow> callState \<Rightarrow> Store \<times> callState" where
  "stepCall s (NotStarted tid quantityChange) =
     (case getDoc (ticketTypes s) tid of
        Some currentData \<Rightarrow>
          (let newAvailableQuantity = availableQuantity currentData + quantityChange in
           if newAvailableQuantity < 0 then (s, Rejected InsufficientAvailability)
           else (s, AwaitingWrite tid newAvailableQuantity))
      | None \<Rightarrow> (s, Rejected TicketDocNotFound))"
| "stepCall s (AwaitingWrite tid newAvailableQuantity) =
     (s\<lparr>ticketTypes :=
          updateDoc (ticketTypes s) tid (\<lambda>d. d\<lparr>availableQuantity := newAvailableQuantity\<rparr>)\<rparr>,
      Resolved)"
| "stepCall s Resolved = (s, Resolved)"
| "stepCall s (Rejected e) = (s, Rejected e)"

fun runSchedule :: "nat list \<Rightarrow> Store \<times> callState list \<Rightarrow> Store \<times> callState list" where
  "runSchedule [] cfg = cfg"
| "runSchedule (i # sched) (s, calls) =
     (if i < length calls
      then (case stepCall s (calls ! i) of (s', c') \<Rightarrow> runSchedule sched (s', calls[i := c']))
      else runSchedule sched (s, calls))"

section \<open>Registration submission (the mutation of lib/hooks/useRegistration.ts)\<close>

text \<open>
  The hook holds the form configuration and the ticket types as query results, loaded
  before the submission and possibly absent; both are arguments here.  Next to its
  result and the store, the model returns the service calls the submission made, in
  order.
\<close>

datatype serviceCall = CreateRegistration | UpdateTicketAvailability string int

definition findTicket :: "TicketType list option \<Rightarrow> string \<Rightarrow> TicketType option" where
  "findTicket loaded tid =
     (case loaded of None \<Rightarrow> None | Some tts \<Rightarrow> find (\<lambda>t. tt_id t = tid) tts)"

fun validateSelections :: "TicketType list option \<Rightarrow> TicketSelection list \<Rightarrow> error option" where
  "validateSelections loaded [] = None"
| "validateSelections loaded (selection # rest) =
     (case findTicket loaded (ticketTypeId selection) of
        None \<Rightarrow> Some (TicketTypeNotFound (ticketTypeId selection))
      | Some ticketType \<Rightarrow>
          if availableQuantity ticketType < quantity selection
          then Some (InsufficientTickets (tt_name ticketType))
          else validateSelections loaded rest)"

definition calculateTotal ::
    "JsRuntime \<Rightarrow> TicketType list option \<Rightarrow> TicketSelection list \<Rightarrow> jsNumber" where
  "calculateTotal rt loaded selections =
     foldl (\<lambda>sum selection.
              jsAdd rt sum
                (case findTicket loaded (ticketTypeId selection) of
                   Some ticketType \<Rightarrow>
                     jsMul rt (price ticketType) (Finite (of_int (quantity selection)))
                 | None \<Rightarrow> Finite 0))
       (Finite 0) selections"

fun updateAll :: "Store \<Rightarrow> TicketSelection list \<Rightarrow> error option \<times> Store \<times> serviceCall list" where
  "updateAll s [] = (None, s, [])"
| "updateAll s (selection # rest) =
     (case updateTicketAvailability s (ticketTypeId selection) (- quantity selection) of
        Inl e \<Rightarrow>
          (Some e, s, [UpdateTicketAvailability (ticketTypeId selection) (- quantity selection)])
      | Inr s' \<Rightarrow>
          (case updateAll s' rest of
             (r, s'', calls) \<Rightarrow>
               (r, s'',
                UpdateTicketAvailability (ticketTypeId selection) (- quantity selection) # calls)))"

definition submitRegistration ::
    "JsRuntime \<Rightarrow> SubmitEnv \<Rightarrow> RegistrationFormConfig option \<Rightarrow> TicketType list option \<Rightarrow> string \<Rightarrow>
     RegistrationFormData \<Rightarrow> Store \<Rightarrow> (error + string \<times> string) \<times> Store \<times> serviceCall list" where
  "submitRegistration rt env formConfig loaded evId formData s =
     (case formConfig of
        None \<Rightarrow> (Inl FormConfigNotFound, s, [])
      | Some fc \<Rightarrow>
          (case validateSelections loaded (fd_ticketSelections formData) of
             Some e \<Rightarrow> (Inl e, s, [])
           | None \<Rightarrow>
               (let total = calculateTotal rt loaded (fd_ticketSelections formData);
                    registrationData =
                      \<lparr>eventId = evId,
                       formConfigId = fc_id fc,
                       ticketSelections = fd_ticketSelections formData,
                       totalAmount = total,
                       status = (if requiresApproval fc then Pending else Confirmed),
                       paymentStatus = (if total = Finite 0 then PayCompleted else PayPending),
                       registrationDate = submitTime env,
                       confirmationCode = generatedCode env\<rparr>
                in case createRegistration env s registrationData of
                     Inl e \<Rightarrow> (Inl e, s, [CreateRegistration])
                   | Inr (registrationId, s1) \<Rightarrow>
                       (case updateAll s1 (fd_ticketSelections formData) of
                          (Some e, s2, calls) \<Rightarrow> (Inl e, s2, CreateRegistration # calls)
                        | (None, s2, calls) \<Rightarrow>
                            (Inr (registrationId, confirmationCode registrationData), s2,
                             CreateRegistration # calls)))))"

section \<open>Custom-field validators (lib/validations/registration.ts)\<close>

text \<open>
  A value handed to a validator is a JavaScript value; a compiled validator either
  accepts it or throws, so it is a predicate.  The pieces of the validation library the
  code combines are written out: \<open>z.string()\<close>, \<open>.min\<close>, \<open>.max\<close>,
  \<open>.regex\<close>, \<open>.optional()\<close>, \<open>z.enum\<close>, \<open>z.boolean()\<close>, \<open>z.any()\<close>
  and \<open>.refine\<close>.  The regular-expression engine, the library's e-mail test and
  \<open>Date.parse\<close> belong to the host; \<open>compileRegExp\<close> returns \<open>None\<close> where
  \<open>new RegExp\<close> throws.  String length counts list elements.
\<close>

datatype jsValue = Undefined | Null | Str string | Bool bool | Num int | Obj

datatype fieldType = Text | Email | Phone | Select | Checkbox | Textarea | File | Date

record FieldValidation =
  minLength :: "int option"
  maxLength :: "int option"
  pattern :: "string option"

record CustomField =
  cf_type :: fieldType
  cf_label :: string
  required :: bool
  options :: "string list option"
  validation :: "FieldValidation option"

record Host =
  compileRegExp :: "string \<Rightarrow> (string \<Rightarrow> bool) option"
  isEmail :: "string \<Rightarrow> bool"
  dateParses :: "string \<Rightarrow> bool"

type_synonym validator = "jsValue \<Rightarrow> bool"

definition zString :: validator where
  "zString v = (case v of Str _ \<Rightarrow> True | _ \<Rightarrow> False)"

definition zBoolean :: validator where
  "zBoolean v = (case v of Bool _ \<Rightarrow> True | _ \<Rightarrow> False)"

definition zAny :: validator where
  "zAny v = True"

definition zEnum :: "string list \<Rightarrow> validator" where
  "zEnum opts v = (case v of Str x \<Rightarrow> x \<in> set opts | _ \<Rightarrow> False)"

definition zMin :: "int \<Rightarrow> validator \<Rightarrow> validator" where
  "zMin n inner v = (inner v \<and> (case v of Str x \<Rightarrow> \<not> int (length x) < n | _ \<Rightarrow> True))"

definition zMax :: "int \<Rightarrow> validator \<Rightarrow> validator" where
  "zMax n inner v = (inner v \<and> (case v of Str x \<Rightarrow> \<not> int (length x) > n | _ \<Rightarrow> True))"

definition zRegex :: "(string \<Rightarrow> bool) \<Rightarrow> validator \<Rightarrow> validator" where
  "zRegex re inner v = (inner v \<and> (case v of Str x \<Rightarrow> re x | _ \<Rightarrow> True))"

definition zRefine :: "(jsValue \<Rightarrow> bool) \<Rightarrow> validator \<Rightarrow> validator" where
  "zRefine check inner v = (inner v \<and> check v)"

definition zOptional :: "validator \<Rightarrow> validator" where
  "zOptional inner v = (v = Undefined \<or> inner v)"

definition isDigit :: "char \<Rightarrow> bool" where
  "isDigit c = (c \<in> set ''0123456789'')"

definition phoneRegex :: "string \<Rightarrow> bool" where
  "phoneRegex x =
     (let r = (case x of c # cs \<Rightarrow> if c = CHR ''+'' then cs else x | [] \<Rightarrow> x)
      in case r of
           [] \<Rightarrow> False
         | d # ds \<Rightarrow> d \<in> set ''123456789'' \<and> length ds \<le> 15 \<and> list_all isDigit ds)"

definition minLengthOf :: "CustomField \<Rightarrow> int option" where
  "minLengthOf field =
     (case validation field of
        None \<Rightarrow> None
      | Some vl \<Rightarrow> (case minLength vl of Some n \<Rightarrow> if n = 0 then None else Some n | None \<Rightarrow> None))"

definition maxLengthOf :: "CustomField \<Rightarrow> int option" where
  "maxLengthOf field =
     (case validation field of
        None \<Rightarrow> None
      | Some vl \<Rightarrow> (case maxLength vl of Some n \<Rightarrow> if n = 0 then None else Some n | None \<Rightarrow> None))"

definition patternOf :: "CustomField \<Rightarrow> string option" where
  "patternOf field =
     (case validation field of
        None \<Rightarrow> None
      | Some vl \<Rightarrow> (case pattern vl of Some p \<Rightarrow> if p = [] then None else Some p | None \<Rightarrow> None))"

definition orOptional :: "CustomField \<Rightarrow> validator \<Rightarrow> validator" where
  "orOptional field v = (if required field then v else zOptional v)"

definition textValidation :: "Host \<Rightarrow> CustomField \<Rightarrow> validator option" where
  "textValidation host field =
     (let t0 = zString;
          t1 = (case minLengthOf field of Some n \<Rightarrow> zMin n t0 | None \<Rightarrow> t0);
          t2 = (case maxLengthOf field of Some n \<Rightarrow> zMax n t1 | None \<Rightarrow> t1)
      in case patternOf field of
           None \<Rightarrow> Some (orOptional field t2)
         | Some p \<Rightarrow>
             (case compileRegExp host p of
                None \<Rightarrow> None
              | Some re \<Rightarrow> Some (orOptional field (zRegex re t2))))"

definition createCustomFieldValidation :: "Host \<Rightarrow> CustomField \<Rightarrow> validator option" where
  "createCustomFieldValidation host field =
     (case cf_type field of
        Text \<Rightarrow> textValidation host field
      | Textarea \<Rightarrow> textValidation host field
      | Email \<Rightarrow>
          Some (orOptional field
            (zRefine (\<lambda>v. case v of Str x \<Rightarrow> isEmail host x | _ \<Rightarrow> True) zString))
      | Phone \<Rightarrow> Some (orOptional field (zRegex phoneRegex zString))
      | Select \<Rightarrow>
          (case options field of
             Some (opt # opts) \<Rightarrow> Some (orOptional field (zEnum (opt # opts)))
           | _ \<Rightarrow> Some (orOptional field zString))
      | Checkbox \<Rightarrow>
          (if required field then Some (zRefine (\<lambda>v. v = Bool True) zBoolean)
           else Some (zOptional zBoolean))
      | Date \<Rightarrow>
          Some (orOptional field
            (zRefine (\<lambda>v. case v of Str x \<Rightarrow> dateParses host x | _ \<Rightarrow> True) zString))
      | File \<Rightarrow>
          (if required field then Some (zRefine (\<lambda>v. v \<noteq> Undefined \<and> v \<noteq> Null) zAny)
           else Some (zOptional zAny)))"

section \<open>Properties stated by the specification\<close>

text \<open>
  The capacity invariant \<open>0 \<le> availableQuantity \<le> maxQuantity\<close> of one ticket
  type, in its two halves.
\<close>

definition nonNegativeAt :: "Store \<Rightarrow> string \<Rightarrow> bool" where
  "nonNegativeAt s t =
     (case getDoc (ticketTypes s) t of None \<Rightarrow> True | Some d \<Rightarrow> 0 \<le> availableQuantity d)"

definition withinCapacityAt :: "Store \<Rightarrow> string \<Rightarrow> bool" where
  "withinCapacityAt s t =
     (case getDoc (ticketTypes s) t of
        None \<Rightarrow> True
      | Some d \<Rightarrow> availableQuantity d \<le> maxQuantity d)"

text \<open>
  The quantity a list of concurrent calls was granted: the quantities of the calls that
  started as a reservation and resolved.
\<close>

definition grantedQuantity :: "callState list \<Rightarrow> callState list \<Rightarrow> int" where
  "grantedQuantity initial final =
     (\<Sum>(i, f)\<leftarrow>zip initial final.
        case (i, f) of (NotStarted tid quantityChange, Resolved) \<Rightarrow> - quantityChange | _ \<Rightarrow> 0)"

text \<open>
  Two lists of ticket selections that differ at most in the caller-supplied price.
\<close>

definition samePurchase :: "TicketSelection list \<Rightarrow> TicketSelection list \<Rightarrow> bool" where
  "samePurchase sels sels' =
     (map ticketTypeId sels = map ticketTypeId sels' \<and> map quantity sels = map quantity sels')"

text \<open>
  The inventory call a submission makes for one ticket selection.
\<close>

definition reserveCall :: "TicketSelection \<Rightarrow> serviceCall" where
  "reserveCall selection =
     UpdateTicketAvailability (ticketTypeId selection) (- quantity selection)"



text \<open>
  The loaded ticket-type set: the result of the ticket-type query, empty while there is
  none.
\<close>

definition loadedTickets :: "TicketType list option \<Rightarrow> TicketType list" where
  "loadedTickets loaded = (case loaded of None \<Rightarrow> [] | Some tts \<Rightarrow> tts)"

text \<open>
  A runtime whose addition and multiplication of finite numbers are exact, and the
  value of a finite number.
\<close>

definition exactOnFinite :: "JsRuntime \<Rightarrow> bool" where
  "exactOnFinite rt =
     ((\<forall>a b. jsAdd rt (Finite a) (Finite b) = Finite (a + b)) \<and>
      (\<forall>a b. jsMul rt (Finite a) (Finite b) = Finite (a * b)))"

definition isFinite :: "jsNumber \<Rightarrow> bool" where
  "isFinite x = (case x of Finite v \<Rightarrow> True | _ \<Rightarrow> False)"

definition finiteValue :: "jsNumber \<Rightarrow> real" where
  "finiteValue x = (case x of Finite v \<Rightarrow> v | _ \<Rightarrow> 0)"



section \<open>A runtime for the examples\<close>

text \<open>
  The examples below run on small whole numbers, where double-precision addition and
  multiplication are exact: the example runtime adds and multiplies finite numbers
  exactly and treats the infinities and not-a-number as the standard does.  The
  properties of \<open>Object.prototype\<close> are the standard
  ones, converted to strings the way V8 prints them, and whole numbers are converted to
  their decimal digits.
\<close>

fun exactAdd :: "jsNumber \<Rightarrow> jsNumber \<Rightarrow> jsNumber" where
  "exactAdd (Finite a) (Finite b) = Finite (a + b)"
| "exactAdd NaN y = NaN"
| "exactAdd x NaN = NaN"
| "exactAdd PlusInfinity MinusInfinity = NaN"
| "exactAdd MinusInfinity PlusInfinity = NaN"
| "exactAdd PlusInfinity y = PlusInfinity"
| "exactAdd x PlusInfinity = PlusInfinity"
| "exactAdd MinusInfinity y = MinusInfinity"
| "exactAdd x MinusInfinity = MinusInfinity"

definition signedInfinity :: "bool \<Rightarrow> jsNumber" where
  "signedInfinity positive = (if positive then PlusInfinity else MinusInfinity)"

fun exactMul :: "jsNumber \<Rightarrow> jsNumber \<Rightarrow> jsNumber" where
  "exactMul (Finite a) (Finite b) = Finite (a * b)"
| "exactMul NaN y = NaN"
| "exactMul x NaN = NaN"
| "exactMul (Finite a) PlusInfinity = (if a = 0 then NaN else signedInfinity (0 < a))"
| "exactMul (Finite a) MinusInfinity = (if a = 0 then NaN else signedInfinity (a < 0))"
| "exactMul PlusInfinity (Finite b) = (if b = 0 then NaN else signedInfinity (0 < b))"
| "exactMul MinusInfinity (Finite b) = (if b = 0 then NaN else signedInfinity (b < 0))"
| "exactMul PlusInfinity PlusInfinity = PlusInfinity"
| "exactMul PlusInfinity MinusInfinity = MinusInfinity"
| "exactMul MinusInfinity PlusInfinity = MinusInfinity"
| "exactMul MinusInfinity MinusInfinity = PlusInfinity"

definition digitChar :: "nat \<Rightarrow> char" where
  "digitChar d = ''0123456789'' ! (d mod 10)"

function natToString :: "nat \<Rightarrow> string" where
  "natToString n = (if n < 10 then [digitChar n] else natToString (n div 10) @ [digitChar n])"
  by pat_completeness auto
termination
  by (relation "measure (\<lambda>n. n)") auto

declare natToString.simps [simp del]

definition intToString :: "int \<Rightarrow> string" where
  "intToString i = (if i < 0 then CHR ''-'' # natToString (nat (- i)) else natToString (nat i))"

definition nativeFunctionText :: "string \<Rightarrow> string" where
  "nativeFunctionText name = ''function '' @ name @ ''() { [native code] }''"

definition objectPrototypeText :: "string \<Rightarrow> string option" where
  "objectPrototypeText k =
     (if k = ''__proto__'' then Some ''[object Object]''
      else if k = ''constructor'' then Some (nativeFunctionText ''Object'')
      else if k \<in> set [''__defineGetter__'', ''__defineSetter__'', ''__lookupGetter__'',
                        ''__lookupSetter__'', ''hasOwnProperty'', ''isPrototypeOf'',
                        ''propertyIsEnumerable'', ''toLocaleString'', ''toString'', ''valueOf'']
      then Some (nativeFunctionText k)
      else None)"

definition exampleRuntime :: JsRuntime where
  "exampleRuntime =
     \<lparr>jsAdd = exactAdd, jsMul = exactMul,
      inheritedText = objectPrototypeText, numberToString = intToString\<rparr>"

section \<open>Store lemmas\<close>

lemma getDoc_updateDoc_same:
  "getDoc (updateDoc coll k f) k = map_option f (getDoc coll k)"
  by (induction coll) (auto simp: getDoc_def updateDoc_def)

lemma getDoc_updateDoc_other:
  "k' \<noteq> k \<Longrightarrow> getDoc (updateDoc coll k f) k' = getDoc coll k'"
  by (induction coll) (auto simp: getDoc_def updateDoc_def)

lemma updateTicketAvailability_registrations:
  "updateTicketAvailability s tid ch = Inr s' \<Longrightarrow> registrations s' = registrations s"
  by (auto simp: updateTicketAvailability_def Let_def split: option.splits if_splits)

lemma updateTicketAvailability_success:
  "updateTicketAvailability s tid ch = Inr s' \<Longrightarrow>
   \<exists>d. getDoc (ticketTypes s) tid = Some d \<and> 0 \<le> availableQuantity d + ch \<and>
       ticketTypes s' =
         updateDoc (ticketTypes s) tid (\<lambda>x. x\<lparr>availableQuantity := availableQuantity d + ch\<rparr>)"
  by (auto simp: updateTicketAvailability_def Let_def split: option.splits if_splits)

lemma updateTicketAvailability_ticketTypes:
  "ticketTypes s = ticketTypes t \<Longrightarrow>
   updateTicketAvailability t tid ch =
     (case updateTicketAvailability s tid ch of
        Inl e \<Rightarrow> Inl e
      | Inr s' \<Rightarrow> Inr (t\<lparr>ticketTypes := ticketTypes s'\<rparr>))"
  by (auto simp: updateTicketAvailability_def Let_def split: option.splits)

text \<open>
  Served back to back, the two store operations of a call are the sequential function.
\<close>

lemma updateTicketAvailability_as_steps:
  "runSchedule [0, 0] (s, [NotStarted tid ch]) =
     (case updateTicketAvailability s tid ch of
        Inr s' \<Rightarrow> (s', [Resolved])
      | Inl e \<Rightarrow> (s, [Rejected e]))"
  by (simp add: updateTicketAvailability_def Let_def split: option.splits)

section \<open>Inventory: reservation and release\<close>

text \<open>
  C1.  Claim: under any set of concurrent reserve calls the quantities of the calls
  that report success never add up to more than \<open>maxQuantity\<close>, because a reservation
  is one atomic conditional decrement.  The code reads and writes in two store
  operations.  With \<open>maxQuantity = 2\<close> and \<open>availableQuantity = 2\<close>, two calls
  reserving 2 each, served read, read, write, write, both resolve: 4 tickets are granted
  and \<open>availableQuantity\<close> ends at 0.  Served one call after the other, the second
  call is rejected.
\<close>

theorem concurrent_reserve_oversells:
  "runSchedule [0, 1, 0, 1]
     (\<lparr>registrations = [],
       ticketTypes = [(''t1'', \<lparr>tt_id = ''t1'', tt_name = ''General'', price = Finite 50,
                              maxQuantity = 2, availableQuantity = 2, isActive = True\<rparr>)]\<rparr>,
      [NotStarted ''t1'' (- 2), NotStarted ''t1'' (- 2)])
   = (\<lparr>registrations = [],
       ticketTypes = [(''t1'', \<lparr>tt_id = ''t1'', tt_name = ''General'', price = Finite 50,
                              maxQuantity = 2, availableQuantity = 0, isActive = True\<rparr>)]\<rparr>,
      [Resolved, Resolved])
   \<and> grantedQuantity [NotStarted ''t1'' (- 2), NotStarted ''t1'' (- 2)] [Resolved, Resolved] = 4
   \<and> runSchedule [0, 0, 1, 1]
     (\<lparr>registrations = [],
       ticketTypes = [(''t1'', \<lparr>tt_id = ''t1'', tt_name = ''General'', price = Finite 50,
                              maxQuantity = 2, availableQuantity = 2, isActive = True\<rparr>)]\<rparr>,
      [NotStarted ''t1'' (- 2), NotStarted ''t1'' (- 2)])
   = (\<lparr>registrations = [],
       ticketTypes = [(''t1'', \<lparr>tt_id = ''t1'', tt_name = ''General'', price = Finite 50,
                              maxQuantity = 2, availableQuantity = 0, isActive = True\<rparr>)]\<rparr>,
      [Resolved, Rejected InsufficientAvailability])"
  by (simp add: getDoc_def updateDoc_def grantedQuantity_def)

text \<open>
  C4, as the code has it.  After a successful \<open>updateTicketAvailability\<close> the
  ticket type it updated has a non-negative \<open>availableQuantity\<close>, and every ticket
  type that was non-negative still is; a change that would take \<open>availableQuantity\<close>
  below 0 is rejected.  \<open>availableQuantity \<le> maxQuantity\<close> is kept by every call
  with \<open>quantityChange \<le> 0\<close>: the function never compares against
  \<open>maxQuantity\<close>.
\<close>

theorem updateTicketAvailability_invariant:
  "(updateTicketAvailability s tid ch = Inr s' \<longrightarrow> nonNegativeAt s t \<longrightarrow> nonNegativeAt s' t)
   \<and> (updateTicketAvailability s tid ch = Inr s' \<longrightarrow> nonNegativeAt s' tid)
   \<and> (updateTicketAvailability s tid ch = Inr s' \<longrightarrow> ch \<le> 0 \<longrightarrow>
        withinCapacityAt s t \<longrightarrow> withinCapacityAt s' t)
   \<and> (getDoc (ticketTypes s) tid = Some d \<longrightarrow> availableQuantity d + ch < 0 \<longrightarrow>
        updateTicketAvailability s tid ch = Inl InsufficientAvailability)"
proof (intro conjI impI)
  assume ok: "updateTicketAvailability s tid ch = Inr s'"
  from updateTicketAvailability_success [OF ok] obtain d0 where
    d0: "getDoc (ticketTypes s) tid = Some d0" "0 \<le> availableQuantity d0 + ch"
        "ticketTypes s' =
           updateDoc (ticketTypes s) tid (\<lambda>x. x\<lparr>availableQuantity := availableQuantity d0 + ch\<rparr>)"
    by blast
  show "nonNegativeAt s' tid"
    using d0 by (simp add: nonNegativeAt_def getDoc_updateDoc_same)
  { assume "nonNegativeAt s t"
    then show "nonNegativeAt s' t"
      using d0
      by (cases "t = tid")
         (simp_all add: nonNegativeAt_def getDoc_updateDoc_same getDoc_updateDoc_other) }
  { assume "ch \<le> 0" "withinCapacityAt s t"
    then show "withinCapacityAt s' t"
      using d0
      by (cases "t = tid")
         (simp_all add: withinCapacityAt_def getDoc_updateDoc_same getDoc_updateDoc_other) }
next
  assume "getDoc (ticketTypes s) tid = Some d" "availableQuantity d + ch < 0"
  then show "updateTicketAvailability s tid ch = Inl InsufficientAvailability"
    by (simp add: updateTicketAvailability_def)
qed

text \<open>
  The theorem at a ticket type with 3 of 10 tickets left: reserving 2 succeeds and keeps
  both bounds, reserving 5 is rejected.
\<close>

theorem updateTicketAvailability_invariant_witness:
  "nonNegativeAt
     \<lparr>registrations = [],
      ticketTypes = [(''t1'', \<lparr>tt_id = ''t1'', tt_name = ''General'', price = Finite 50,
                              maxQuantity = 10, availableQuantity = 3, isActive = True\<rparr>)]\<rparr> ''t1''
   \<and> withinCapacityAt
     \<lparr>registrations = [],
      ticketTypes = [(''t1'', \<lparr>tt_id = ''t1'', tt_name = ''General'', price = Finite 50,
                              maxQuantity = 10, availableQuantity = 3, isActive = True\<rparr>)]\<rparr> ''t1''
   \<and> updateTicketAvailability
     \<lparr>registrations = [],
      ticketTypes = [(''t1'', \<lparr>tt_id = ''t1'', tt_name = ''General'', price = Finite 50,
                              maxQuantity = 10, availableQuantity = 3, isActive = True\<rparr>)]\<rparr>
     ''t1'' (- 2)
     = Inr \<lparr>registrations = [],
      ticketTypes = [(''t1'', \<lparr>tt_id = ''t1'', tt_name = ''General'', price = Finite 50,
                              maxQuantity = 10, availableQuantity = 1, isActive = True\<rparr>)]\<rparr>
   \<and> nonNegativeAt
     \<lparr>registrations = [],
      ticketTypes = [(''t1'', \<lparr>tt_id = ''t1'', tt_name = ''General'', price = Finite 50,
                              maxQuantity = 10, availableQuantity = 1, isActive = True\<rparr>)]\<rparr> ''t1''
   \<and> withinCapacityAt
     \<lparr>registrations = [],
      ticketTypes = [(''t1'', \<lparr>tt_id = ''t1'', tt_name = ''General'', price = Finite 50,
                              maxQuantity = 10, availableQuantity = 1, isActive = True\<rparr>)]\<rparr> ''t1''
   \<and> updateTicketAvailability
     \<lparr>registrations = [],
      ticketTypes = [(''t1'', \<lparr>tt_id = ''t1'', tt_name = ''General'', price = Finite 50,
                              maxQuantity = 10, availableQuantity = 3, isActive = True\<rparr>)]\<rparr>
     ''t1'' (- 5)
     = Inl InsufficientAvailability"
proof -
  let ?d = "\<lparr>tt_id = ''t1'', tt_name = ''General'', price = Finite 50,
             maxQuantity = 10, availableQuantity = 3, isActive = True\<rparr>"
  let ?s = "\<lparr>registrations = [], ticketTypes = [(''t1'', ?d)]\<rparr>"
  let ?s' = "\<lparr>registrations = [],
      ticketTypes = [(''t1'', \<lparr>tt_id = ''t1'', tt_name = ''General'', price = Finite 50,
                              maxQuantity = 10, availableQuantity = 1, isActive = True\<rparr>)]\<rparr>"
  have nn: "nonNegativeAt ?s ''t1''" by (simp add: nonNegativeAt_def getDoc_def)
  have wc: "withinCapacityAt ?s ''t1''" by (simp add: withinCapacityAt_def getDoc_def)
  have ok: "updateTicketAvailability ?s ''t1'' (- 2) = Inr ?s'"
    by (simp add: updateTicketAvailability_def getDoc_def updateDoc_def)
  have gd: "getDoc (ticketTypes ?s) ''t1'' = Some ?d" by (simp add: getDoc_def)
  have low: "availableQuantity ?d + (- 5) < 0" by simp
  have le: "(- 2 :: int) \<le> 0" by simp
  note inv = updateTicketAvailability_invariant [of ?s "''t1''" "- 2" ?s' "''t1''" ?d]
  note rej = updateTicketAvailability_invariant [of ?s "''t1''" "- 5" ?s' "''t1''" ?d]
  from inv ok nn have nn': "nonNegativeAt ?s' ''t1''" by blast
  from inv ok le wc have wc': "withinCapacityAt ?s' ''t1''" by blast
  from rej gd low have "updateTicketAvailability ?s ''t1'' (- 5) = Inl InsufficientAvailability"
    by blast
  with nn wc ok nn' wc' show ?thesis by blast
qed

text \<open>
  C4 as stated fails: releasing one ticket of a ticket type that is at capacity
  (\<open>availableQuantity = maxQuantity = 10\<close>) succeeds and leaves
  \<open>availableQuantity = 11\<close>.
\<close>

theorem release_exceeds_maxQuantity:
  "updateTicketAvailability
     \<lparr>registrations = [],
      ticketTypes = [(''t1'', \<lparr>tt_id = ''t1'', tt_name = ''General'', price = Finite 50,
                              maxQuantity = 10, availableQuantity = 10, isActive = True\<rparr>)]\<rparr>
     ''t1'' 1
   = Inr \<lparr>registrations = [],
          ticketTypes = [(''t1'', \<lparr>tt_id = ''t1'', tt_name = ''General'', price = Finite 50,
                                  maxQuantity = 10, availableQuantity = 11, isActive = True\<rparr>)]\<rparr>"
  by (simp add: updateTicketAvailability_def getDoc_def updateDoc_def)

section \<open>Status updates\<close>

text \<open>
  C5, as the code has it.  \<open>updateRegistrationStatus\<close> checks no transition: for
  every registration in the store, whatever its current status, and every requested
  status the call succeeds and the registration then has the requested status;
  \<open>paymentStatus\<close> changes only when one is passed, and \<open>approvedAt\<close> is stamped
  when the requested status is \<open>confirmed\<close>.
\<close>

theorem updateRegistrationStatus_unrestricted:
  assumes "getDoc (registrations s) rid = Some r"
  shows "\<exists>s' r'. updateRegistrationStatus now s rid st ps = Inr s' \<and>
           getDoc (registrations s') rid = Some r' \<and> status r' = st \<and>
           paymentStatus r' = (case ps of Some p \<Rightarrow> p | None \<Rightarrow> paymentStatus r) \<and>
           approvedAt r' = (if st = Confirmed then Some now else approvedAt r)"
  using assms
  by (cases ps) (simp_all add: updateRegistrationStatus_def getDoc_updateDoc_same Let_def)

text \<open>
  The theorem at a pending registration that is confirmed with a completed payment.
\<close>

theorem updateRegistrationStatus_unrestricted_witness:
  "getDoc
     (registrations
        \<lparr>registrations =
           [(''r1'', \<lparr>eventId = ''ev1'', formConfigId = ''f1'', ticketSelections = [],
                      totalAmount = Finite 0, status = Pending, paymentStatus = PayPending,
                      registrationDate = 1000, confirmationCode = ''ABCD1234'',
                      approvedAt = None, createdAt = 1000, updatedAt = 1000\<rparr>)],
         ticketTypes = []\<rparr>) ''r1''
     = Some \<lparr>eventId = ''ev1'', formConfigId = ''f1'', ticketSelections = [],
             totalAmount = Finite 0, status = Pending, paymentStatus = PayPending,
             registrationDate = 1000, confirmationCode = ''ABCD1234'',
             approvedAt = None, createdAt = 1000, updatedAt = 1000\<rparr>
   \<and> (\<exists>s' r'. updateRegistrationStatus 2000
        \<lparr>registrations =
           [(''r1'', \<lparr>eventId = ''ev1'', formConfigId = ''f1'', ticketSelections = [],
                      totalAmount = Finite 0, status = Pending, paymentStatus = PayPending,
                      registrationDate = 1000, confirmationCode = ''ABCD1234'',
                      approvedAt = None, createdAt = 1000, updatedAt = 1000\<rparr>)],
         ticketTypes = []\<rparr> ''r1'' Confirmed (Some PayCompleted) = Inr s' \<and>
        getDoc (registrations s') ''r1'' = Some r' \<and> status r' = Confirmed \<and>
        paymentStatus r' = PayCompleted \<and> approvedAt r' = Some 2000)"
proof -
  let ?r = "\<lparr>eventId = ''ev1'', formConfigId = ''f1'', ticketSelections = [],
             totalAmount = Finite 0, status = Pending, paymentStatus = PayPending,
             registrationDate = 1000, confirmationCode = ''ABCD1234'',
             approvedAt = None, createdAt = 1000, updatedAt = 1000\<rparr>"
  let ?s = "\<lparr>registrations = [(''r1'', ?r)], ticketTypes = []\<rparr>"
  have g: "getDoc (registrations ?s) ''r1'' = Some ?r" by (simp add: getDoc_def)
  from updateRegistrationStatus_unrestricted [OF g, of 2000 Confirmed "Some PayCompleted"]
  have "\<exists>s' r'. updateRegistrationStatus 2000 ?s ''r1'' Confirmed (Some PayCompleted) = Inr s' \<and>
        getDoc (registrations s') ''r1'' = Some r' \<and> status r' = Confirmed \<and>
        paymentStatus r' = PayCompleted \<and> approvedAt r' = Some 2000"
    by simp
  with g show ?thesis by blast
qed

text \<open>
  C5 as stated fails: a cancelled registration is set to \<open>confirmed\<close>.
\<close>

theorem cancelled_is_not_terminal:
  "updateRegistrationStatus 2000
     \<lparr>registrations =
        [(''r1'', \<lparr>eventId = ''ev1'', formConfigId = ''f1'', ticketSelections = [],
                   totalAmount = Finite 0, status = Cancelled, paymentStatus = PayPending,
                   registrationDate = 1000, confirmationCode = ''ABCD1234'',
                   approvedAt = None, createdAt = 1000, updatedAt = 1000\<rparr>)],
      ticketTypes = []\<rparr>
     ''r1'' Confirmed None
   = Inr \<lparr>registrations =
        [(''r1'', \<lparr>eventId = ''ev1'', formConfigId = ''f1'', ticketSelections = [],
                   totalAmount = Finite 0, status = Confirmed, paymentStatus = PayPending,
                   registrationDate = 1000, confirmationCode = ''ABCD1234'',
                   approvedAt = Some 2000, createdAt = 1000, updatedAt = 2000\<rparr>)],
      ticketTypes = []\<rparr>"
  by (simp add: updateRegistrationStatus_def getDoc_def updateDoc_def)

section \<open>Submission lemmas\<close>

lemma samePurchase_Nil [simp]: "samePurchase [] ys = (ys = [])" "samePurchase xs [] = (xs = [])"
  by (auto simp: samePurchase_def)

lemma samePurchase_Cons:
  "samePurchase (a # xs) ys =
     (\<exists>b ys'. ys = b # ys' \<and> ticketTypeId a = ticketTypeId b \<and> quantity a = quantity b \<and>
              samePurchase xs ys')"
  by (cases ys) (auto simp: samePurchase_def)

text \<open>
  The lookup of a ticket type: the first loaded ticket type with the requested id.
\<close>

lemma findTicket_find:
  "findTicket loaded tid = find (\<lambda>t. tt_id t = tid) (loadedTickets loaded)"
  by (cases loaded) (simp_all add: findTicket_def loadedTickets_def)

lemma find_Some_member:
  "find P xs = Some x \<Longrightarrow> x \<in> set xs \<and> P x"
  by (induction xs) (auto split: if_splits)

lemma findTicket_absent:
  "tid \<notin> tt_id ` set (loadedTickets loaded) \<Longrightarrow> findTicket loaded tid = None"
  by (auto simp: findTicket_find find_None_iff)

lemma validateSelections_fails:
  assumes "sel \<in> set sels"
    and "findTicket loaded (ticketTypeId sel) = None \<or>
         (\<exists>t. findTicket loaded (ticketTypeId sel) = Some t \<and> availableQuantity t < quantity sel)"
  shows "\<exists>e. validateSelections loaded sels = Some e \<and>
             ((\<exists>tid. e = TicketTypeNotFound tid) \<or> (\<exists>n. e = InsufficientTickets n))"
  using assms
proof (induction sels)
  case Nil
  then show ?case by simp
next
  case (Cons a sels)
  show ?case
  proof (cases "findTicket loaded (ticketTypeId a)")
    case None
    then show ?thesis by simp
  next
    case (Some t)
    show ?thesis
    proof (cases "availableQuantity t < quantity a")
      case True
      with Some show ?thesis by simp
    next
      case False
      with Some Cons.prems have "sel \<in> set sels" by auto
      with Cons.IH Cons.prems(2) Some False show ?thesis by simp
    qed
  qed
qed

lemma validateSelections_found:
  "validateSelections loaded sels = None \<Longrightarrow>
   \<exists>tickets. map (\<lambda>selection. findTicket loaded (ticketTypeId selection)) sels = map Some tickets"
proof (induction sels)
  case Nil
  then show ?case by simp
next
  case (Cons a sels)
  from Cons.prems obtain t where t: "findTicket loaded (ticketTypeId a) = Some t"
    by (cases "findTicket loaded (ticketTypeId a)") auto
  with Cons.prems have "validateSelections loaded sels = None" by (simp split: if_splits)
  from Cons.IH [OF this] obtain tickets where
    "map (\<lambda>selection. findTicket loaded (ticketTypeId selection)) sels = map Some tickets"
    by blast
  with t have "map (\<lambda>selection. findTicket loaded (ticketTypeId selection)) (a # sels)
          = map Some (t # tickets)"
    by simp
  then show ?case by blast
qed

lemma found_tickets_loaded:
  "map (\<lambda>selection. findTicket loaded (ticketTypeId selection)) sels = map Some tickets \<Longrightarrow>
   list_all2 (\<lambda>ticketType selection.
                ticketType \<in> set (loadedTickets loaded) \<and> tt_id ticketType = ticketTypeId selection)
     tickets sels"
proof (induction sels arbitrary: tickets)
  case Nil
  then show ?case by simp
next
  case (Cons a sels)
  then obtain t ts where ts: "tickets = t # ts" "findTicket loaded (ticketTypeId a) = Some t"
      "map (\<lambda>selection. findTicket loaded (ticketTypeId selection)) sels = map Some ts"
    by (cases tickets) auto
  from ts(2) have "t \<in> set (loadedTickets loaded) \<and> tt_id t = ticketTypeId a"
    using find_Some_member [of "\<lambda>x. tt_id x = ticketTypeId a" "loadedTickets loaded" t]
    by (simp add: findTicket_find)
  with Cons.IH [OF ts(3)] ts(1) show ?case by simp
qed

text \<open>
  The total of a validated submission, written over the tickets that were found: the
  products are added from left to right, starting from 0, in the runtime's arithmetic.
\<close>

lemma total_over_found_tickets:
  "map (\<lambda>selection. findTicket loaded (ticketTypeId selection)) sels = map Some tickets \<Longrightarrow>
   foldl (\<lambda>sum selection.
            jsAdd rt sum
              (case findTicket loaded (ticketTypeId selection) of
                 Some ticketType \<Rightarrow>
                   jsMul rt (price ticketType) (Finite (of_int (quantity selection)))
               | None \<Rightarrow> Finite 0))
     a sels
   = foldl (\<lambda>sum (ticketType, selection).
              jsAdd rt sum
                (jsMul rt (price ticketType) (Finite (of_int (quantity selection)))))
       a (zip tickets sels)"
proof (induction sels arbitrary: tickets a)
  case Nil
  then show ?case by simp
next
  case (Cons x sels)
  then obtain t ts where ts: "tickets = t # ts" "findTicket loaded (ticketTypeId x) = Some t"
      "map (\<lambda>selection. findTicket loaded (ticketTypeId selection)) sels = map Some ts"
    by (cases tickets) auto
  show ?case
    using Cons.IH [OF ts(3)] ts(1,2) by simp
qed

text \<open>
  On a runtime that is exact on finite numbers, with finite prices, the total is the
  exact sum.
\<close>

lemma exact_total:
  assumes "exactOnFinite rt"
  shows "list_all (\<lambda>(ticketType, selection). isFinite (price ticketType)) pairs \<Longrightarrow>
         foldl (\<lambda>sum (ticketType, selection).
                  jsAdd rt sum
                    (jsMul rt (price ticketType) (Finite (of_int (quantity selection)))))
           (Finite a) pairs
         = Finite (a + (\<Sum>(ticketType, selection)\<leftarrow>pairs.
                          finiteValue (price ticketType) * of_int (quantity selection)))"
proof (induction pairs arbitrary: a)
  case Nil
  then show ?case by simp
next
  case (Cons p pairs)
  obtain t sel where p: "p = (t, sel)" by (cases p)
  from Cons.prems p obtain v where v: "price t = Finite v"
    by (cases "price t") (auto simp: isFinite_def)
  from Cons.prems have rest: "list_all (\<lambda>(ticketType, selection). isFinite (price ticketType)) pairs"
    by simp
  have step: "jsAdd rt (Finite a) (jsMul rt (price t) (Finite (of_int (quantity sel))))
                = Finite (a + v * of_int (quantity sel))"
    using assms v by (simp add: exactOnFinite_def)
  show ?case
    using Cons.IH [OF rest, of "a + v * of_int (quantity sel)"] step v
    by (simp add: p finiteValue_def add.assoc)
qed

lemma zip_tickets_finite:
  "list_all (\<lambda>ticketType. isFinite (price ticketType)) tickets \<Longrightarrow>
   list_all (\<lambda>(ticketType, selection). isFinite (price ticketType)) (zip tickets sels)"
  by (auto simp: list_all_iff dest: set_zip_leftD)

lemma validateSelections_samePurchase:
  "samePurchase sels sels' \<Longrightarrow> validateSelections loaded sels' = validateSelections loaded sels"
proof (induction sels arbitrary: sels')
  case Nil
  then show ?case by simp
next
  case (Cons a sels)
  then obtain b ys where "sels' = b # ys" "ticketTypeId a = ticketTypeId b"
      "quantity a = quantity b" "samePurchase sels ys"
    by (auto simp: samePurchase_Cons)
  with Cons.IH [of ys] show ?case by (simp split: option.splits)
qed

lemma total_samePurchase:
  "samePurchase sels sels' \<Longrightarrow>
   foldl (\<lambda>sum selection.
            jsAdd rt sum
              (case findTicket loaded (ticketTypeId selection) of
                 Some ticketType \<Rightarrow>
                   jsMul rt (price ticketType) (Finite (of_int (quantity selection)))
               | None \<Rightarrow> Finite 0))
     a sels'
   = foldl (\<lambda>sum selection.
            jsAdd rt sum
              (case findTicket loaded (ticketTypeId selection) of
                 Some ticketType \<Rightarrow>
                   jsMul rt (price ticketType) (Finite (of_int (quantity selection)))
               | None \<Rightarrow> Finite 0))
     a sels"
proof (induction sels arbitrary: sels' a)
  case Nil
  then show ?case by simp
next
  case (Cons x sels)
  then obtain b ys where b: "sels' = b # ys" "ticketTypeId b = ticketTypeId x"
      "quantity b = quantity x" "samePurchase sels ys"
    by (auto simp: samePurchase_Cons)
  show ?case
    using Cons.IH [OF b(4)] b(1,2,3) by (simp cong: option.case_cong)
qed

lemma calculateTotal_samePurchase:
  "samePurchase sels sels' \<Longrightarrow> calculateTotal rt loaded sels' = calculateTotal rt loaded sels"
  unfolding calculateTotal_def by (rule total_samePurchase)

lemma updateAll_registrations:
  "updateAll s sels = (r, s', calls) \<Longrightarrow> registrations s' = registrations s"
proof (induction sels arbitrary: s r s' calls)
  case Nil
  then show ?case by simp
next
  case (Cons a sels)
  show ?case
  proof (cases "updateTicketAvailability s (ticketTypeId a) (- quantity a)")
    case (Inl e)
    with Cons.prems show ?thesis by simp
  next
    case (Inr s1)
    obtain r2 s2 c2 where u: "updateAll s1 sels = (r2, s2, c2)"
      by (cases "updateAll s1 sels") auto
    with Cons.prems Inr have "s' = s2" by simp
    with Cons.IH [OF u] updateTicketAvailability_registrations [OF Inr] show ?thesis by simp
  qed
qed

lemma updateAll_samePurchase:
  "samePurchase sels sels' \<Longrightarrow> ticketTypes s = ticketTypes t \<Longrightarrow>
   updateAll s sels = (None, s', calls) \<Longrightarrow>
   \<exists>t'. updateAll t sels' = (None, t', calls) \<and> ticketTypes t' = ticketTypes s'"
proof (induction sels arbitrary: sels' s t calls)
  case Nil
  then show ?case by simp
next
  case (Cons a sels)
  from Cons.prems(1) obtain b ys where b: "sels' = b # ys" "ticketTypeId a = ticketTypeId b"
      "quantity a = quantity b" "samePurchase sels ys"
    by (auto simp: samePurchase_Cons)
  from Cons.prems(3) obtain s1 where
    s1: "updateTicketAvailability s (ticketTypeId a) (- quantity a) = Inr s1"
    by (cases "updateTicketAvailability s (ticketTypeId a) (- quantity a)") auto
  obtain r2 s2 c2 where u: "updateAll s1 sels = (r2, s2, c2)"
    by (cases "updateAll s1 sels") auto
  with Cons.prems(3) s1 have r: "r2 = None" "s2 = s'"
      "calls = UpdateTicketAvailability (ticketTypeId a) (- quantity a) # c2"
    by auto
  let ?t1 = "t\<lparr>ticketTypes := ticketTypes s1\<rparr>"
  have t1: "updateTicketAvailability t (ticketTypeId a) (- quantity a) = Inr ?t1"
    using updateTicketAvailability_ticketTypes
            [OF Cons.prems(2), of "ticketTypeId a" "- quantity a"] s1
    by simp
  have "ticketTypes s1 = ticketTypes ?t1" by simp
  from Cons.IH [OF b(4) this] u r obtain t' where
    "updateAll ?t1 ys = (None, t', c2)" "ticketTypes t' = ticketTypes s'" by blast
  with t1 b r show ?case by simp
qed

lemma updateAll_calls:
  "updateAll s sels = (r, s', calls) \<Longrightarrow>
   (\<exists>k\<le>length sels. calls = map reserveCall (take k sels)) \<and>
   (r = None \<longrightarrow> calls = map reserveCall sels)"
proof (induction sels arbitrary: s r s' calls)
  case Nil
  then show ?case by simp
next
  case (Cons a sels)
  show ?case
  proof (cases "updateTicketAvailability s (ticketTypeId a) (- quantity a)")
    case (Inl e)
    with Cons.prems have "calls = map reserveCall (take 1 (a # sels))" "r \<noteq> None"
      by (auto simp: reserveCall_def)
    then show ?thesis by (metis One_nat_def Suc_leI length_Cons zero_less_Suc)
  next
    case (Inr s1)
    obtain r2 s2 c2 where u: "updateAll s1 sels = (r2, s2, c2)"
      by (cases "updateAll s1 sels") auto
    with Cons.prems Inr have r: "r = r2" "calls = reserveCall a # c2"
      by (auto simp: reserveCall_def)
    from Cons.IH [OF u] obtain k where k: "k \<le> length sels" "c2 = map reserveCall (take k sels)"
      and all: "r2 = None \<longrightarrow> c2 = map reserveCall sels" by blast
    have "calls = map reserveCall (take (Suc k) (a # sels))" using r k by simp
    moreover have "Suc k \<le> length (a # sels)" using k by simp
    ultimately show ?thesis using r all by (metis list.simps(9))
  qed
qed

text \<open>
  What a successful submission has done, and the converse direction used to rebuild a
  submission from its parts.
\<close>

lemma submit_success:
  assumes "submitRegistration rt env formConfig loaded evId formData s = (Inr (rid, code), s', calls)"
  shows "\<exists>fc reg. formConfig = Some fc \<and>
           validateSelections loaded (fd_ticketSelections formData) = None \<and>
           registrations s' = registrations s @ [(rid, reg)] \<and>
           totalAmount reg = calculateTotal rt loaded (fd_ticketSelections formData) \<and>
           status reg = (if requiresApproval fc then Pending else Confirmed) \<and>
           paymentStatus reg = (if totalAmount reg = Finite 0 then PayCompleted else PayPending)"
proof -
  from assms obtain fc where fc: "formConfig = Some fc"
    by (cases formConfig) (auto simp: submitRegistration_def)
  from assms fc have v: "validateSelections loaded (fd_ticketSelections formData) = None"
    by (cases "validateSelections loaded (fd_ticketSelections formData)")
       (auto simp: submitRegistration_def)
  from assms fc v have nf: "\<not> addDocFails env"
    by (auto simp: submitRegistration_def createRegistration_def Let_def)
  define reg where "reg = RegistrationData.extend
       \<lparr>eventId = evId,
        formConfigId = fc_id fc,
        ticketSelections = fd_ticketSelections formData,
        totalAmount = calculateTotal rt loaded (fd_ticketSelections formData),
        status = (if requiresApproval fc then Pending else Confirmed),
        paymentStatus = (if calculateTotal rt loaded (fd_ticketSelections formData) = Finite 0
                         then PayCompleted else PayPending),
        registrationDate = submitTime env,
        confirmationCode = generatedCode env\<rparr>
       (Registration.fields None (createTime env) (createTime env))"
  obtain r2 s2 c2 where
    u: "updateAll (s\<lparr>registrations := registrations s @ [(newDocId env, reg)]\<rparr>)
          (fd_ticketSelections formData) = (r2, s2, c2)"
    using prod_cases3 by blast
  from assms fc v nf u have res: "s' = s2" "rid = newDocId env"
    by (auto simp: submitRegistration_def createRegistration_def Let_def reg_def
             split: option.splits)
  have "registrations s' = registrations s @ [(rid, reg)]"
    using updateAll_registrations [OF u] res by simp
  moreover have "totalAmount reg = calculateTotal rt loaded (fd_ticketSelections formData)"
      "status reg = (if requiresApproval fc then Pending else Confirmed)"
      "paymentStatus reg = (if totalAmount reg = Finite 0 then PayCompleted else PayPending)"
    by (simp_all add: reg_def RegistrationData.defs Registration.defs)
  ultimately show ?thesis using fc v by blast
qed

lemma submit_forward:
  assumes "validateSelections loaded (fd_ticketSelections formData) = None"
    and "\<not> addDocFails env"
    and "updateAll (s\<lparr>registrations := registrations s @ [(newDocId env, reg)]\<rparr>)
           (fd_ticketSelections formData) = (None, s2, calls)"
    and "reg = RegistrationData.extend
                 \<lparr>eventId = evId,
                  formConfigId = fc_id fc,
                  ticketSelections = fd_ticketSelections formData,
                  totalAmount = calculateTotal rt loaded (fd_ticketSelections formData),
                  status = (if requiresApproval fc then Pending else Confirmed),
                  paymentStatus = (if calculateTotal rt loaded (fd_ticketSelections formData) = Finite 0
                                   then PayCompleted else PayPending),
                  registrationDate = submitTime env,
                  confirmationCode = generatedCode env\<rparr>
                 (Registration.fields None (createTime env) (createTime env))"
  shows "submitRegistration rt env (Some fc) loaded evId formData s =
           (Inr (newDocId env, generatedCode env), s2, CreateRegistration # calls)"
  using assms by (simp add: submitRegistration_def createRegistration_def Let_def)

section \<open>Registration submission\<close>

lemma exampleRuntime_exact: "exactOnFinite exampleRuntime"
  by (simp add: exactOnFinite_def exampleRuntime_def)

text \<open>
  A submission of two General Admission tickets (50 each, 75 of 100 left) to a form that
  needs no approval, with any caller-supplied price \<open>p\<close>: the registration is stored
  with \<open>totalAmount = Finite 100\<close>, and the availability drops to 73.
\<close>

lemma example_submission:
  "submitRegistration exampleRuntime
     \<lparr>newDocId = ''reg-123'', addDocFails = False, generatedCode = ''ABC12345'',
      submitTime = 1000, createTime = 1001\<rparr>
     (Some \<lparr>fc_id = ''form-1'', fc_eventId = ''event-1'', requiresApproval = False,
            fc_isActive = True\<rparr>)
     (Some [\<lparr>tt_id = ''ticket-1'', tt_name = ''General Admission'', price = Finite 50,
             maxQuantity = 100, availableQuantity = 75, isActive = True\<rparr>])
     ''event-1''
     \<lparr>fd_ticketSelections = [\<lparr>ticketTypeId = ''ticket-1'', quantity = 2, sel_price = p\<rparr>],
      agreeToTerms = True\<rparr>
     \<lparr>registrations = [],
      ticketTypes = [(''ticket-1'', \<lparr>tt_id = ''ticket-1'', tt_name = ''General Admission'',
                       price = Finite 50, maxQuantity = 100, availableQuantity = 75, isActive = True\<rparr>)]\<rparr>
   = (Inr (''reg-123'', ''ABC12345''),
      \<lparr>registrations =
         [(''reg-123'', \<lparr>eventId = ''event-1'', formConfigId = ''form-1'',
              ticketSelections = [\<lparr>ticketTypeId = ''ticket-1'', quantity = 2, sel_price = p\<rparr>],
              totalAmount = Finite 100, status = Confirmed, paymentStatus = PayPending,
              registrationDate = 1000, confirmationCode = ''ABC12345'',
              approvedAt = None, createdAt = 1001, updatedAt = 1001\<rparr>)],
       ticketTypes = [(''ticket-1'', \<lparr>tt_id = ''ticket-1'', tt_name = ''General Admission'',
                       price = Finite 50, maxQuantity = 100, availableQuantity = 73, isActive = True\<rparr>)]\<rparr>,
      [CreateRegistration, UpdateTicketAvailability ''ticket-1'' (- 2)])"
  by (simp add: submitRegistration_def findTicket_def calculateTotal_def createRegistration_def
      exampleRuntime_def
      updateTicketAvailability_def getDoc_def updateDoc_def Let_def
      RegistrationData.defs Registration.defs)

text \<open>
  C10, as the code has it.  If a ticket selection of the submitted payload names a
  ticket type that is not in the loaded ticket-type set, or asks for more than the
  loaded \<open>availableQuantity\<close> of that ticket type (the first loaded ticket type
  with the id), the submission fails and returns the store it was given: no registration
  is persisted, no availability is changed, and no service call is made.  When a form
  configuration is loaded the error is \<open>Ticket type not found\<close> or
  \<open>Insufficient tickets available\<close>; when none is loaded the error is
  \<open>Registration form configuration not found\<close>, which is raised first.
\<close>

theorem submit_rejects_before_any_write:
  assumes "sel \<in> set (fd_ticketSelections formData)"
    and "ticketTypeId sel \<notin> tt_id ` set (loadedTickets loaded) \<or>
         (\<exists>t. find (\<lambda>t. tt_id t = ticketTypeId sel) (loadedTickets loaded) = Some t \<and>
              availableQuantity t < quantity sel)"
  shows "\<exists>e. submitRegistration rt env formConfig loaded evId formData s = (Inl e, s, []) \<and>
           (formConfig = None \<and> e = FormConfigNotFound \<or>
            formConfig \<noteq> None \<and>
              ((\<exists>tid. e = TicketTypeNotFound tid) \<or> (\<exists>n. e = InsufficientTickets n)))"
proof (cases formConfig)
  case None
  then show ?thesis by (simp add: submitRegistration_def)
next
  case (Some fc)
  from assms(2) have "findTicket loaded (ticketTypeId sel) = None \<or>
         (\<exists>t. findTicket loaded (ticketTypeId sel) = Some t \<and> availableQuantity t < quantity sel)"
    using findTicket_absent [of "ticketTypeId sel" loaded] by (auto simp: findTicket_find)
  from validateSelections_fails [OF assms(1) this] obtain e where
    "validateSelections loaded (fd_ticketSelections formData) = Some e"
    "(\<exists>tid. e = TicketTypeNotFound tid) \<or> (\<exists>n. e = InsufficientTickets n)" by blast
  with Some show ?thesis by (simp add: submitRegistration_def)
qed

text \<open>
  The theorem at a request for 100 tickets of a ticket type with 75 left, with a form
  configuration loaded.
\<close>

theorem submit_rejects_before_any_write_witness:
  "\<lparr>ticketTypeId = ''t1'', quantity = 100, sel_price = Finite 50\<rparr>
     \<in> set (fd_ticketSelections
          \<lparr>fd_ticketSelections = [\<lparr>ticketTypeId = ''t1'', quantity = 100, sel_price = Finite 50\<rparr>],
           agreeToTerms = True\<rparr>)
   \<and> find (\<lambda>t. tt_id t = ''t1'')
        (loadedTickets
           (Some [\<lparr>tt_id = ''t1'', tt_name = ''General'', price = Finite 50,
                   maxQuantity = 100, availableQuantity = 75, isActive = True\<rparr>]))
      = Some \<lparr>tt_id = ''t1'', tt_name = ''General'', price = Finite 50,
              maxQuantity = 100, availableQuantity = 75, isActive = True\<rparr>
   \<and> submitRegistration exampleRuntime
       \<lparr>newDocId = ''reg-1'', addDocFails = False, generatedCode = ''ABCD1234'',
        submitTime = 1000, createTime = 1001\<rparr>
       (Some \<lparr>fc_id = ''form-1'', fc_eventId = ''ev1'', requiresApproval = False,
              fc_isActive = True\<rparr>)
       (Some [\<lparr>tt_id = ''t1'', tt_name = ''General'', price = Finite 50,
               maxQuantity = 100, availableQuantity = 75, isActive = True\<rparr>])
       ''ev1''
       \<lparr>fd_ticketSelections = [\<lparr>ticketTypeId = ''t1'', quantity = 100, sel_price = Finite 50\<rparr>],
        agreeToTerms = True\<rparr>
       \<lparr>registrations = [],
        ticketTypes = [(''t1'', \<lparr>tt_id = ''t1'', tt_name = ''General'', price = Finite 50,
                               maxQuantity = 100, availableQuantity = 75, isActive = True\<rparr>)]\<rparr>
     = (Inl (InsufficientTickets ''General''),
        \<lparr>registrations = [],
         ticketTypes = [(''t1'', \<lparr>tt_id = ''t1'', tt_name = ''General'', price = Finite 50,
                               maxQuantity = 100, availableQuantity = 75, isActive = True\<rparr>)]\<rparr>,
        [])"
proof -
  let ?sel = "\<lparr>ticketTypeId = ''t1'', quantity = 100, sel_price = Finite 50\<rparr>"
  let ?fd = "\<lparr>fd_ticketSelections = [?sel], agreeToTerms = True\<rparr>"
  let ?t = "\<lparr>tt_id = ''t1'', tt_name = ''General'', price = Finite 50,
             maxQuantity = 100, availableQuantity = 75, isActive = True\<rparr>"
  let ?env = "\<lparr>newDocId = ''reg-1'', addDocFails = False, generatedCode = ''ABCD1234'',
        submitTime = 1000, createTime = 1001\<rparr>"
  let ?fc = "\<lparr>fc_id = ''form-1'', fc_eventId = ''ev1'', requiresApproval = False,
              fc_isActive = True\<rparr>"
  let ?s = "\<lparr>registrations = [], ticketTypes = [(''t1'', ?t)]\<rparr>"
  have m: "?sel \<in> set (fd_ticketSelections ?fd)" by simp
  have f: "find (\<lambda>t. tt_id t = ''t1'') (loadedTickets (Some [?t])) = Some ?t"
    by (simp add: loadedTickets_def)
  have h: "ticketTypeId ?sel \<notin> tt_id ` set (loadedTickets (Some [?t])) \<or>
         (\<exists>t. find (\<lambda>t. tt_id t = ticketTypeId ?sel) (loadedTickets (Some [?t])) = Some t \<and>
              availableQuantity t < quantity ?sel)"
    using f by simp
  from submit_rejects_before_any_write [OF m h, of exampleRuntime ?env "Some ?fc" "''ev1''" ?s]
  obtain e where
    e: "submitRegistration exampleRuntime ?env (Some ?fc) (Some [?t]) ''ev1'' ?fd ?s = (Inl e, ?s, [])"
    by blast
  have "validateSelections (Some [?t]) [?sel] = Some (InsufficientTickets ''General'')"
    by (simp add: findTicket_def)
  then have "fst (submitRegistration exampleRuntime ?env (Some ?fc) (Some [?t]) ''ev1'' ?fd ?s)
               = Inl (InsufficientTickets ''General'')"
    by (simp add: submitRegistration_def)
  with e have "e = InsufficientTickets ''General''" by simp
  with e m f show ?thesis by simp
qed

text \<open>
  C10 as stated fails.  The payload asks for a ticket type that is not loaded, and no
  form configuration is loaded either: the submission fails before any write, but with
  the missing-configuration error, not with \<open>Ticket type not found\<close>.
\<close>

theorem missing_form_configuration_is_reported_first:
  "submitRegistration exampleRuntime
     \<lparr>newDocId = ''reg-1'', addDocFails = False, generatedCode = ''ABCD1234'',
      submitTime = 1000, createTime = 1001\<rparr>
     None
     (Some [\<lparr>tt_id = ''t1'', tt_name = ''General'', price = Finite 50,
             maxQuantity = 100, availableQuantity = 75, isActive = True\<rparr>])
     ''ev1''
     \<lparr>fd_ticketSelections = [\<lparr>ticketTypeId = ''t9'', quantity = 1, sel_price = Finite 50\<rparr>],
      agreeToTerms = True\<rparr>
     \<lparr>registrations = [],
      ticketTypes = [(''t1'', \<lparr>tt_id = ''t1'', tt_name = ''General'', price = Finite 50,
                             maxQuantity = 100, availableQuantity = 75, isActive = True\<rparr>)]\<rparr>
   = (Inl FormConfigNotFound,
      \<lparr>registrations = [],
       ticketTypes = [(''t1'', \<lparr>tt_id = ''t1'', tt_name = ''General'', price = Finite 50,
                              maxQuantity = 100, availableQuantity = 75, isActive = True\<rparr>)]\<rparr>,
      [])
   \<and> findTicket
       (Some [\<lparr>tt_id = ''t1'', tt_name = ''General'', price = Finite 50,
               maxQuantity = 100, availableQuantity = 75, isActive = True\<rparr>]) ''t9'' = None"
  by (simp add: submitRegistration_def findTicket_def)

text \<open>
  C6.  Every successful submission has stored one new registration under the returned
  id; its status is \<open>pending\<close> if the form configuration requires approval and
  \<open>confirmed\<close> otherwise, and its payment status is \<open>completed\<close> if its
  \<open>totalAmount\<close> is 0 and \<open>pending\<close> otherwise.
\<close>

theorem submit_initial_status:
  assumes "submitRegistration rt env formConfig loaded evId formData s = (Inr (rid, code), s', calls)"
  shows "\<exists>fc reg. formConfig = Some fc \<and> registrations s' = registrations s @ [(rid, reg)] \<and>
           status reg = (if requiresApproval fc then Pending else Confirmed) \<and>
           paymentStatus reg = (if totalAmount reg = Finite 0 then PayCompleted else PayPending)"
  using submit_success [OF assms] by blast

text \<open>
  The theorem at the example submission: approval not required, total 100.
\<close>

theorem submit_initial_status_witness:
  "submitRegistration exampleRuntime
     \<lparr>newDocId = ''reg-123'', addDocFails = False, generatedCode = ''ABC12345'',
      submitTime = 1000, createTime = 1001\<rparr>
     (Some \<lparr>fc_id = ''form-1'', fc_eventId = ''event-1'', requiresApproval = False,
            fc_isActive = True\<rparr>)
     (Some [\<lparr>tt_id = ''ticket-1'', tt_name = ''General Admission'', price = Finite 50,
             maxQuantity = 100, availableQuantity = 75, isActive = True\<rparr>])
     ''event-1''
     \<lparr>fd_ticketSelections = [\<lparr>ticketTypeId = ''ticket-1'', quantity = 2, sel_price = Finite 50\<rparr>],
      agreeToTerms = True\<rparr>
     \<lparr>registrations = [],
      ticketTypes = [(''ticket-1'', \<lparr>tt_id = ''ticket-1'', tt_name = ''General Admission'',
                       price = Finite 50, maxQuantity = 100, availableQuantity = 75, isActive = True\<rparr>)]\<rparr>
   = (Inr (''reg-123'', ''ABC12345''),
      \<lparr>registrations =
         [(''reg-123'', \<lparr>eventId = ''event-1'', formConfigId = ''form-1'',
              ticketSelections = [\<lparr>ticketTypeId = ''ticket-1'', quantity = 2, sel_price = Finite 50\<rparr>],
              totalAmount = Finite 100, status = Confirmed, paymentStatus = PayPending,
              registrationDate = 1000, confirmationCode = ''ABC12345'',
              approvedAt = None, createdAt = 1001, updatedAt = 1001\<rparr>)],
       ticketTypes = [(''ticket-1'', \<lparr>tt_id = ''ticket-1'', tt_name = ''General Admission'',
                       price = Finite 50, maxQuantity = 100, availableQuantity = 73, isActive = True\<rparr>)]\<rparr>,
      [CreateRegistration, UpdateTicketAvailability ''ticket-1'' (- 2)])
   \<and> (\<exists>reg. [(''reg-123'', \<lparr>eventId = ''event-1'', formConfigId = ''form-1'',
              ticketSelections = [\<lparr>ticketTypeId = ''ticket-1'', quantity = 2, sel_price = Finite 50\<rparr>],
              totalAmount = Finite 100, status = Confirmed, paymentStatus = PayPending,
              registrationDate = 1000, confirmationCode = ''ABC12345'',
              approvedAt = None, createdAt = 1001, updatedAt = 1001\<rparr>)] = [(''reg-123'', reg)] \<and>
          status reg = Confirmed \<and>
          paymentStatus reg = (if totalAmount reg = Finite 0 then PayCompleted else PayPending))"
proof -
  note ex = example_submission [of "Finite 50"]
  from submit_initial_status [OF ex] have
    "\<exists>reg. [(''reg-123'', \<lparr>eventId = ''event-1'', formConfigId = ''form-1'',
              ticketSelections = [\<lparr>ticketTypeId = ''ticket-1'', quantity = 2, sel_price = Finite 50\<rparr>],
              totalAmount = Finite 100, status = Confirmed, paymentStatus = PayPending,
              registrationDate = 1000, confirmationCode = ''ABC12345'',
              approvedAt = None, createdAt = 1001, updatedAt = 1001\<rparr>)] = [(''reg-123'', reg)] \<and>
          status reg = Confirmed \<and>
          paymentStatus reg = (if totalAmount reg = Finite 0 then PayCompleted else PayPending)"
    by simp
  with ex show ?thesis by blast
qed

text \<open>
  C7.  Every successful submission has found, for each ticket selection, the first
  loaded ticket type with the selected id, and the stored \<open>totalAmount\<close> is the sum
  over the selections of that ticket type's price times the selected quantity, as the
  code forms it: the products are added from left to right, starting from 0, in the
  runtime's arithmetic (on a runtime that is exact on finite numbers, with finite
  prices, it is the exact sum).  The
  price inside a ticket selection plays no part: a submission that differs only in those
  prices succeeds as well, with the same calls and the same \<open>totalAmount\<close>.
\<close>

theorem submit_totalAmount:
  assumes "submitRegistration rt env formConfig loaded evId formData s = (Inr (rid, code), s', calls)"
  shows "\<exists>reg tickets.
           registrations s' = registrations s @ [(rid, reg)] \<and>
           map Some tickets =
             map (\<lambda>selection. find (\<lambda>t. tt_id t = ticketTypeId selection) (loadedTickets loaded))
               (fd_ticketSelections formData) \<and>
           list_all2 (\<lambda>ticketType selection.
                        ticketType \<in> set (loadedTickets loaded) \<and>
                        tt_id ticketType = ticketTypeId selection)
             tickets (fd_ticketSelections formData) \<and>
           totalAmount reg =
             foldl (\<lambda>sum (ticketType, selection).
                      jsAdd rt sum
                (jsMul rt (price ticketType) (Finite (of_int (quantity selection)))))
               (Finite 0) (zip tickets (fd_ticketSelections formData)) \<and>
           (exactOnFinite rt \<and> list_all (\<lambda>ticketType. isFinite (price ticketType)) tickets \<longrightarrow>
              totalAmount reg =
                Finite (\<Sum>(ticketType, selection)\<leftarrow>zip tickets (fd_ticketSelections formData).
                          finiteValue (price ticketType) * of_int (quantity selection))) \<and>
           (\<forall>formData'. samePurchase (fd_ticketSelections formData) (fd_ticketSelections formData') \<longrightarrow>
              (\<exists>s2 reg2. submitRegistration rt env formConfig loaded evId formData' s
                             = (Inr (rid, code), s2, calls) \<and>
                          registrations s2 = registrations s @ [(rid, reg2)] \<and>
                          totalAmount reg2 = totalAmount reg))"
proof -
  let ?sels = "fd_ticketSelections formData"
  let ?fold = "\<lambda>tickets. foldl (\<lambda>sum (ticketType, selection).
                      jsAdd rt sum
                (jsMul rt (price ticketType) (Finite (of_int (quantity selection)))))
               (Finite 0) (zip tickets ?sels)"
  from submit_success [OF assms] obtain fc reg where
    fc: "formConfig = Some fc" and v: "validateSelections loaded ?sels = None"
    and regs: "registrations s' = registrations s @ [(rid, reg)]"
    and tot: "totalAmount reg = calculateTotal rt loaded ?sels"
    by blast
  from validateSelections_found [OF v] obtain tickets where
    ts: "map (\<lambda>selection. findTicket loaded (ticketTypeId selection)) ?sels = map Some tickets"
    by blast
  have found: "map Some tickets =
      map (\<lambda>selection. find (\<lambda>t. tt_id t = ticketTypeId selection) (loadedTickets loaded)) ?sels"
    using ts by (simp add: findTicket_find)
  note member = found_tickets_loaded [OF ts]
  have total: "totalAmount reg = ?fold tickets"
    using tot total_over_found_tickets [OF ts, of rt "Finite 0"] by (simp add: calculateTotal_def)
  have exact: "exactOnFinite rt \<and> list_all (\<lambda>ticketType. isFinite (price ticketType)) tickets \<longrightarrow>
              totalAmount reg =
                Finite (\<Sum>(ticketType, selection)\<leftarrow>zip tickets ?sels.
                          finiteValue (price ticketType) * of_int (quantity selection))"
    using total exact_total [of rt "zip tickets ?sels" 0] zip_tickets_finite [of tickets ?sels]
    by simp
  from assms fc v have nf: "\<not> addDocFails env"
    by (auto simp: submitRegistration_def createRegistration_def Let_def)
  define mk where "mk = (\<lambda>fd::RegistrationFormData. RegistrationData.extend
                 \<lparr>eventId = evId,
                  formConfigId = fc_id fc,
                  ticketSelections = fd_ticketSelections fd,
                  totalAmount = calculateTotal rt loaded (fd_ticketSelections fd),
                  status = (if requiresApproval fc then Pending else Confirmed),
                  paymentStatus = (if calculateTotal rt loaded (fd_ticketSelections fd) = Finite 0
                                   then PayCompleted else PayPending),
                  registrationDate = submitTime env,
                  confirmationCode = generatedCode env\<rparr>
                 (Registration.fields None (createTime env) (createTime env)))"
  let ?s1 = "\<lambda>fd::RegistrationFormData.
               s\<lparr>registrations := registrations s @ [(newDocId env, mk fd)]\<rparr>"
  obtain r2 s2 c2 where u: "updateAll (?s1 formData) ?sels = (r2, s2, c2)"
    using prod_cases3 by blast
  from assms fc v nf u have res: "r2 = None" "s' = s2" "calls = CreateRegistration # c2"
      "rid = newDocId env" "code = generatedCode env"
    by (auto simp: submitRegistration_def createRegistration_def Let_def mk_def
             split: option.splits)
  have vary: "\<exists>s2 reg2. submitRegistration rt env formConfig loaded evId formData' s
                             = (Inr (rid, code), s2, calls) \<and>
                          registrations s2 = registrations s @ [(rid, reg2)] \<and>
                          totalAmount reg2 = totalAmount reg"
    if sp: "samePurchase ?sels (fd_ticketSelections formData')" for formData'
  proof -
    have v': "validateSelections loaded (fd_ticketSelections formData') = None"
      using validateSelections_samePurchase [OF sp] v by simp
    have tt: "ticketTypes (?s1 formData) = ticketTypes (?s1 formData')" by simp
    from updateAll_samePurchase [OF sp tt] u res obtain t' where
      t': "updateAll (?s1 formData') (fd_ticketSelections formData') = (None, t', c2)" by blast
    have sub: "submitRegistration rt env (Some fc) loaded evId formData' s =
           (Inr (newDocId env, generatedCode env), t', CreateRegistration # c2)"
      by (rule submit_forward [OF v' nf t']) (simp add: mk_def)
    have "registrations t' = registrations s @ [(newDocId env, mk formData')]"
      using updateAll_registrations [OF t'] by simp
    moreover have "totalAmount (mk formData') = totalAmount reg"
      using tot calculateTotal_samePurchase [OF sp]
      by (simp add: mk_def RegistrationData.defs Registration.defs)
    ultimately show ?thesis using sub res fc by blast
  qed
  show ?thesis
    apply (rule exI [of _ reg], rule exI [of _ tickets])
    using regs found member total exact vary by blast
qed

text \<open>
  The theorem at the example submission, once with the caller-supplied price 50 and once
  with 1: the stored \<open>totalAmount\<close> is 100 both times.
\<close>

theorem submit_totalAmount_witness:
  "exactOnFinite exampleRuntime
   \<and> samePurchase [\<lparr>ticketTypeId = ''ticket-1'', quantity = 2, sel_price = Finite 50\<rparr>]
                [\<lparr>ticketTypeId = ''ticket-1'', quantity = 2, sel_price = Finite 1\<rparr>]
   \<and> (\<exists>s1 s2 reg1 reg2.
        submitRegistration exampleRuntime
          \<lparr>newDocId = ''reg-123'', addDocFails = False, generatedCode = ''ABC12345'',
           submitTime = 1000, createTime = 1001\<rparr>
          (Some \<lparr>fc_id = ''form-1'', fc_eventId = ''event-1'', requiresApproval = False,
                 fc_isActive = True\<rparr>)
          (Some [\<lparr>tt_id = ''ticket-1'', tt_name = ''General Admission'', price = Finite 50,
                  maxQuantity = 100, availableQuantity = 75, isActive = True\<rparr>])
          ''event-1''
          \<lparr>fd_ticketSelections = [\<lparr>ticketTypeId = ''ticket-1'', quantity = 2, sel_price = Finite 50\<rparr>],
           agreeToTerms = True\<rparr>
          \<lparr>registrations = [],
           ticketTypes = [(''ticket-1'', \<lparr>tt_id = ''ticket-1'', tt_name = ''General Admission'',
                  price = Finite 50, maxQuantity = 100, availableQuantity = 75, isActive = True\<rparr>)]\<rparr>
        = (Inr (''reg-123'', ''ABC12345''), s1,
           [CreateRegistration, UpdateTicketAvailability ''ticket-1'' (- 2)]) \<and>
        submitRegistration exampleRuntime
          \<lparr>newDocId = ''reg-123'', addDocFails = False, generatedCode = ''ABC12345'',
           submitTime = 1000, createTime = 1001\<rparr>
          (Some \<lparr>fc_id = ''form-1'', fc_eventId = ''event-1'', requiresApproval = False,
                 fc_isActive = True\<rparr>)
          (Some [\<lparr>tt_id = ''ticket-1'', tt_name = ''General Admission'', price = Finite 50,
                  maxQuantity = 100, availableQuantity = 75, isActive = True\<rparr>])
          ''event-1''
          \<lparr>fd_ticketSelections = [\<lparr>ticketTypeId = ''ticket-1'', quantity = 2, sel_price = Finite 1\<rparr>],
           agreeToTerms = True\<rparr>
          \<lparr>registrations = [],
           ticketTypes = [(''ticket-1'', \<lparr>tt_id = ''ticket-1'', tt_name = ''General Admission'',
                  price = Finite 50, maxQuantity = 100, availableQuantity = 75, isActive = True\<rparr>)]\<rparr>
        = (Inr (''reg-123'', ''ABC12345''), s2,
           [CreateRegistration, UpdateTicketAvailability ''ticket-1'' (- 2)]) \<and>
        registrations s1 = [(''reg-123'', reg1)] \<and>
        registrations s2 = [(''reg-123'', reg2)] \<and>
        totalAmount reg1 = Finite 100 \<and> totalAmount reg2 = Finite 100)"
proof -
  let ?fd' = "\<lparr>fd_ticketSelections = [\<lparr>ticketTypeId = ''ticket-1'', quantity = 2, sel_price = Finite 1\<rparr>],
               agreeToTerms = True\<rparr>"
  have sp: "samePurchase [\<lparr>ticketTypeId = ''ticket-1'', quantity = 2, sel_price = Finite 50\<rparr>]
                [\<lparr>ticketTypeId = ''ticket-1'', quantity = 2, sel_price = Finite 1\<rparr>]"
    by (simp add: samePurchase_def)
  note ex = example_submission [of "Finite 50"]
  from submit_totalAmount [OF ex] obtain reg tickets where
    r: "[(''reg-123'', \<lparr>eventId = ''event-1'', formConfigId = ''form-1'',
              ticketSelections = [\<lparr>ticketTypeId = ''ticket-1'', quantity = 2, sel_price = Finite 50\<rparr>],
              totalAmount = Finite 100, status = Confirmed, paymentStatus = PayPending,
              registrationDate = 1000, confirmationCode = ''ABC12345'',
              approvedAt = None, createdAt = 1001, updatedAt = 1001\<rparr>)] = [(''reg-123'', reg)]"
    and v: "\<forall>formData'. samePurchase [\<lparr>ticketTypeId = ''ticket-1'', quantity = 2, sel_price = Finite 50\<rparr>]
                 (fd_ticketSelections formData') \<longrightarrow>
              (\<exists>s2 reg2. submitRegistration exampleRuntime
          \<lparr>newDocId = ''reg-123'', addDocFails = False, generatedCode = ''ABC12345'',
           submitTime = 1000, createTime = 1001\<rparr>
          (Some \<lparr>fc_id = ''form-1'', fc_eventId = ''event-1'', requiresApproval = False,
                 fc_isActive = True\<rparr>)
          (Some [\<lparr>tt_id = ''ticket-1'', tt_name = ''General Admission'', price = Finite 50,
                  maxQuantity = 100, availableQuantity = 75, isActive = True\<rparr>])
          ''event-1'' formData'
          \<lparr>registrations = [],
           ticketTypes = [(''ticket-1'', \<lparr>tt_id = ''ticket-1'', tt_name = ''General Admission'',
                  price = Finite 50, maxQuantity = 100, availableQuantity = 75, isActive = True\<rparr>)]\<rparr>
                  = (Inr (''reg-123'', ''ABC12345''), s2,
                     [CreateRegistration, UpdateTicketAvailability ''ticket-1'' (- 2)]) \<and>
                  registrations s2 = [(''reg-123'', reg2)] \<and>
                  totalAmount reg2 = totalAmount reg)"
    by auto
  from r have t: "totalAmount reg = Finite 100" by auto
  from v [rule_format, of ?fd'] sp obtain s2 reg2 where
    "submitRegistration exampleRuntime
          \<lparr>newDocId = ''reg-123'', addDocFails = False, generatedCode = ''ABC12345'',
           submitTime = 1000, createTime = 1001\<rparr>
          (Some \<lparr>fc_id = ''form-1'', fc_eventId = ''event-1'', requiresApproval = False,
                 fc_isActive = True\<rparr>)
          (Some [\<lparr>tt_id = ''ticket-1'', tt_name = ''General Admission'', price = Finite 50,
                  maxQuantity = 100, availableQuantity = 75, isActive = True\<rparr>])
          ''event-1'' ?fd'
          \<lparr>registrations = [],
           ticketTypes = [(''ticket-1'', \<lparr>tt_id = ''ticket-1'', tt_name = ''General Admission'',
                  price = Finite 50, maxQuantity = 100, availableQuantity = 75, isActive = True\<rparr>)]\<rparr>
                  = (Inr (''reg-123'', ''ABC12345''), s2,
                     [CreateRegistration, UpdateTicketAvailability ''ticket-1'' (- 2)])"
     "registrations s2 = [(''reg-123'', reg2)]" "totalAmount reg2 = totalAmount reg"
    by auto
  with ex r t sp exampleRuntime_exact show ?thesis
    by (intro conjI exI) (assumption | simp)+
qed

text \<open>
  C3, as the code has it.  A submission that gets past its checks persists the
  registration first and only then calls \<open>updateTicketAvailability\<close> with
  \<open>- quantity\<close>, once per ticket selection (not once per distinct ticket type), in
  the order of the selections.  The calls of any submission are none, or
  \<open>createRegistration\<close> followed by the inventory calls of a prefix of the
  selections; the calls of a successful submission are \<open>createRegistration\<close>
  followed by the inventory calls of all selections.
\<close>

theorem submit_call_order:
  assumes "submitRegistration rt env formConfig loaded evId formData s = (res, s', calls)"
  shows "(calls = [] \<or>
          (\<exists>k\<le>length (fd_ticketSelections formData).
              calls = CreateRegistration # map reserveCall (take k (fd_ticketSelections formData)))) \<and>
         ((\<exists>r. res = Inr r) \<longrightarrow>
              calls = CreateRegistration # map reserveCall (fd_ticketSelections formData))"
proof (cases formConfig)
  case None
  with assms show ?thesis by (auto simp: submitRegistration_def)
next
  case (Some fc)
  note fc = this
  show ?thesis
  proof (cases "validateSelections loaded (fd_ticketSelections formData)")
    case (Some e)
    with assms fc show ?thesis by (auto simp: submitRegistration_def)
  next
    case None
    show ?thesis
    proof (cases "addDocFails env")
      case True
      with assms None fc have
        "calls = CreateRegistration # map reserveCall (take 0 (fd_ticketSelections formData))"
        "\<not> (\<exists>r. res = Inr r)"
        by (auto simp: submitRegistration_def createRegistration_def Let_def)
      then show ?thesis by blast
    next
      case False
      obtain s1 where s1: "createRegistration env s
             \<lparr>eventId = evId,
              formConfigId = fc_id fc,
              ticketSelections = fd_ticketSelections formData,
              totalAmount = calculateTotal rt loaded (fd_ticketSelections formData),
              status = (if requiresApproval fc then Pending else Confirmed),
              paymentStatus = (if calculateTotal rt loaded (fd_ticketSelections formData) = Finite 0
                               then PayCompleted else PayPending),
              registrationDate = submitTime env,
              confirmationCode = generatedCode env\<rparr> = Inr (newDocId env, s1)"
        using False by (simp add: createRegistration_def)
      obtain r2 s2 c2 where u: "updateAll s1 (fd_ticketSelections formData) = (r2, s2, c2)"
        using prod_cases3 by blast
      from assms None fc s1 u have c: "calls = CreateRegistration # c2"
        and r: "(\<exists>r. res = Inr r) \<longrightarrow> r2 = None"
        by (auto simp: submitRegistration_def Let_def split: option.splits)
      from updateAll_calls [OF u] c r show ?thesis by auto
    qed
  qed
qed

text \<open>
  The theorem at the example submission.
\<close>

theorem submit_call_order_witness:
  "submitRegistration exampleRuntime
     \<lparr>newDocId = ''reg-123'', addDocFails = False, generatedCode = ''ABC12345'',
      submitTime = 1000, createTime = 1001\<rparr>
     (Some \<lparr>fc_id = ''form-1'', fc_eventId = ''event-1'', requiresApproval = False,
            fc_isActive = True\<rparr>)
     (Some [\<lparr>tt_id = ''ticket-1'', tt_name = ''General Admission'', price = Finite 50,
             maxQuantity = 100, availableQuantity = 75, isActive = True\<rparr>])
     ''event-1''
     \<lparr>fd_ticketSelections = [\<lparr>ticketTypeId = ''ticket-1'', quantity = 2, sel_price = Finite 50\<rparr>],
      agreeToTerms = True\<rparr>
     \<lparr>registrations = [],
      ticketTypes = [(''ticket-1'', \<lparr>tt_id = ''ticket-1'', tt_name = ''General Admission'',
                       price = Finite 50, maxQuantity = 100, availableQuantity = 75, isActive = True\<rparr>)]\<rparr>
   = (Inr (''reg-123'', ''ABC12345''),
      \<lparr>registrations =
         [(''reg-123'', \<lparr>eventId = ''event-1'', formConfigId = ''form-1'',
              ticketSelections = [\<lparr>ticketTypeId = ''ticket-1'', quantity = 2, sel_price = Finite 50\<rparr>],
              totalAmount = Finite 100, status = Confirmed, paymentStatus = PayPending,
              registrationDate = 1000, confirmationCode = ''ABC12345'',
              approvedAt = None, createdAt = 1001, updatedAt = 1001\<rparr>)],
       ticketTypes = [(''ticket-1'', \<lparr>tt_id = ''ticket-1'', tt_name = ''General Admission'',
                       price = Finite 50, maxQuantity = 100, availableQuantity = 73, isActive = True\<rparr>)]\<rparr>,
      [CreateRegistration, UpdateTicketAvailability ''ticket-1'' (- 2)])
   \<and> [CreateRegistration, UpdateTicketAvailability ''ticket-1'' (- 2)]
       = CreateRegistration #
         map reserveCall [\<lparr>ticketTypeId = ''ticket-1'', quantity = 2, sel_price = Finite 50\<rparr>]"
proof -
  note ex = example_submission [of "Finite 50"]
  from submit_call_order [OF ex]
  have "[CreateRegistration, UpdateTicketAvailability ''ticket-1'' (- 2)]
       = CreateRegistration #
         map reserveCall [\<lparr>ticketTypeId = ''ticket-1'', quantity = 2, sel_price = Finite 50\<rparr>]"
    by simp
  with ex show ?thesis by blast
qed

text \<open>
  C3 as stated fails.  The loaded ticket types still show one VIP ticket, the store has
  none left.  The submission creates the registration before it touches the inventory,
  reserves the General ticket, fails on the VIP ticket and returns the error: no release
  call follows, and the General ticket stays reserved.
\<close>

theorem submit_persists_before_reserving:
  "submitRegistration exampleRuntime
     \<lparr>newDocId = ''reg-7'', addDocFails = False, generatedCode = ''WXYZ6789'',
      submitTime = 5000, createTime = 5001\<rparr>
     (Some \<lparr>fc_id = ''form-1'', fc_eventId = ''ev1'', requiresApproval = True, fc_isActive = True\<rparr>)
     (Some [\<lparr>tt_id = ''t1'', tt_name = ''General'', price = Finite 50,
             maxQuantity = 10, availableQuantity = 4, isActive = True\<rparr>,
            \<lparr>tt_id = ''t2'', tt_name = ''VIP'', price = Finite 100,
             maxQuantity = 5, availableQuantity = 1, isActive = True\<rparr>])
     ''ev1''
     \<lparr>fd_ticketSelections = [\<lparr>ticketTypeId = ''t1'', quantity = 1, sel_price = Finite 50\<rparr>,
                             \<lparr>ticketTypeId = ''t2'', quantity = 1, sel_price = Finite 100\<rparr>],
      agreeToTerms = True\<rparr>
     \<lparr>registrations = [],
      ticketTypes = [(''t1'', \<lparr>tt_id = ''t1'', tt_name = ''General'', price = Finite 50,
                             maxQuantity = 10, availableQuantity = 4, isActive = True\<rparr>),
                     (''t2'', \<lparr>tt_id = ''t2'', tt_name = ''VIP'', price = Finite 100,
                             maxQuantity = 5, availableQuantity = 0, isActive = True\<rparr>)]\<rparr>
   = (Inl InsufficientAvailability,
      \<lparr>registrations =
         [(''reg-7'', \<lparr>eventId = ''ev1'', formConfigId = ''form-1'',
              ticketSelections = [\<lparr>ticketTypeId = ''t1'', quantity = 1, sel_price = Finite 50\<rparr>,
                                  \<lparr>ticketTypeId = ''t2'', quantity = 1, sel_price = Finite 100\<rparr>],
              totalAmount = Finite 150, status = Pending, paymentStatus = PayPending,
              registrationDate = 5000, confirmationCode = ''WXYZ6789'',
              approvedAt = None, createdAt = 5001, updatedAt = 5001\<rparr>)],
       ticketTypes = [(''t1'', \<lparr>tt_id = ''t1'', tt_name = ''General'', price = Finite 50,
                              maxQuantity = 10, availableQuantity = 3, isActive = True\<rparr>),
                      (''t2'', \<lparr>tt_id = ''t2'', tt_name = ''VIP'', price = Finite 100,
                              maxQuantity = 5, availableQuantity = 0, isActive = True\<rparr>)]\<rparr>,
      [CreateRegistration, UpdateTicketAvailability ''t1'' (- 1),
       UpdateTicketAvailability ''t2'' (- 1)])"
  by (simp add: submitRegistration_def findTicket_def calculateTotal_def createRegistration_def
      exampleRuntime_def
      updateTicketAvailability_def getDoc_def updateDoc_def Let_def
      RegistrationData.defs Registration.defs)

text \<open>
  C2.  Claim: a submission either persists a registration with all its quantities
  reserved, or persists nothing and changes no availability.  A payload that selects the
  same ticket type twice, 2 tickets each with 3 left, passes the per-selection check,
  is persisted, reserves the first 2 tickets and fails on the second selection: the
  caller gets an error, the registration exists, and \<open>availableQuantity\<close> is 1.
\<close>

theorem duplicate_selection_leaves_partial_state:
  "submitRegistration exampleRuntime
     \<lparr>newDocId = ''reg-1'', addDocFails = False, generatedCode = ''ABCD1234'',
      submitTime = 1000, createTime = 1001\<rparr>
     (Some \<lparr>fc_id = ''form-1'', fc_eventId = ''ev1'', requiresApproval = False, fc_isActive = True\<rparr>)
     (Some [\<lparr>tt_id = ''t1'', tt_name = ''General'', price = Finite 50,
             maxQuantity = 3, availableQuantity = 3, isActive = True\<rparr>])
     ''ev1''
     \<lparr>fd_ticketSelections = [\<lparr>ticketTypeId = ''t1'', quantity = 2, sel_price = Finite 50\<rparr>,
                             \<lparr>ticketTypeId = ''t1'', quantity = 2, sel_price = Finite 50\<rparr>],
      agreeToTerms = True\<rparr>
     \<lparr>registrations = [],
      ticketTypes = [(''t1'', \<lparr>tt_id = ''t1'', tt_name = ''General'', price = Finite 50,
                             maxQuantity = 3, availableQuantity = 3, isActive = True\<rparr>)]\<rparr>
   = (Inl InsufficientAvailability,
      \<lparr>registrations =
         [(''reg-1'', \<lparr>eventId = ''ev1'', formConfigId = ''form-1'',
              ticketSelections = [\<lparr>ticketTypeId = ''t1'', quantity = 2, sel_price = Finite 50\<rparr>,
                                  \<lparr>ticketTypeId = ''t1'', quantity = 2, sel_price = Finite 50\<rparr>],
              totalAmount = Finite 200, status = Confirmed, paymentStatus = PayPending,
              registrationDate = 1000, confirmationCode = ''ABCD1234'',
              approvedAt = None, createdAt = 1001, updatedAt = 1001\<rparr>)],
       ticketTypes = [(''t1'', \<lparr>tt_id = ''t1'', tt_name = ''General'', price = Finite 50,
                              maxQuantity = 3, availableQuantity = 1, isActive = True\<rparr>)]\<rparr>,
      [CreateRegistration, UpdateTicketAvailability ''t1'' (- 2),
       UpdateTicketAvailability ''t1'' (- 2)])"
  by (simp add: submitRegistration_def findTicket_def calculateTotal_def createRegistration_def
      exampleRuntime_def
      updateTicketAvailability_def getDoc_def updateDoc_def Let_def
      RegistrationData.defs Registration.defs)

section \<open>Registration summary\<close>














text \<open>
  Where the ticket type id does name an inherited property, the counter is no number: on
  the example runtime, 2 tickets of a ticket type called \<open>constructor\<close> leave the
  function's text followed by \<open>2\<close>, and tickets of one called \<open>__proto__\<close> leave no
  entry.
\<close>

lemma inherited_key_is_not_counted:
  "addSold exampleRuntime Map.empty
     \<lparr>ticketTypeId = ''constructor'', quantity = 2, sel_price = Finite 50\<rparr> ''constructor''
     = Some (SoldText ''function Object() { [native code] }2'')
   \<and> addSold exampleRuntime Map.empty
     \<lparr>ticketTypeId = ''__proto__'', quantity = 3, sel_price = Finite 50\<rparr> ''__proto__'' = None"
  by (simp add: addSold_def Let_def exampleRuntime_def objectPrototypeText_def
      nativeFunctionText_def intToString_def natToString.simps [of 2] digitChar_def)

section \<open>Custom-field validators\<close>

text \<open>
  C9.  Claim: the validator compiled for a required text or textarea field rejects the
  empty string.  For a required field the code returns the string validator as it is:
  with no minimum length declared, the empty string is accepted, whatever the host's
  regular-expression engine, e-mail test and date parser are.
\<close>

theorem required_text_accepts_empty_string:
  "map_option (\<lambda>v. v (Str []))
     (createCustomFieldValidation host
        \<lparr>cf_type = Text, cf_label = ''Company'', required = True, options = None,
         validation = None\<rparr>) = Some True
   \<and> map_option (\<lambda>v. v (Str []))
     (createCustomFieldValidation host
        \<lparr>cf_type = Textarea, cf_label = ''Notes'', required = True, options = None,
         validation = Some \<lparr>minLength = None, maxLength = Some 100, pattern = None\<rparr>\<rparr>)
     = Some True"
  by (simp add: createCustomFieldValidation_def textValidation_def minLengthOf_def maxLengthOf_def
      patternOf_def orOptional_def zString_def zMax_def Let_def)

end
